theory Spec2Isabelle
  imports Main
begin

section \<open>The database tables\<close>

text \<open>
  The wallet module (\<^verbatim>\<open>ensureTx\<close>, \<^verbatim>\<open>holdStake\<close> and \<^verbatim>\<open>resolveMatch\<close>, which the server imports
  from \<^verbatim>\<open>./wallet\<close>) works on four tables of the Prisma schema whose SQL is in the
  migrations: \<^verbatim>\<open>Balance\<close>, \<^verbatim>\<open>TxLedger\<close>, \<^verbatim>\<open>Match\<close> and \<^verbatim>\<open>Escrow\<close>; the event handlers of the
  server also read \<^verbatim>\<open>User\<close>. A table is the list of its rows. Columns that no modelled statement reads
  are left out: the random \<^verbatim>\<open>id\<close> and \<^verbatim>\<open>createdAt\<close> of a ledger row, \<^verbatim>\<open>updatedAt\<close> of a
  balance, \<^verbatim>\<open>source\<close>, \<^verbatim>\<open>pgn\<close> and \<^verbatim>\<open>createdAt\<close> of a match, and the columns of a user
  other than \<^verbatim>\<open>id\<close> and \<^verbatim>\<open>lichessUsername\<close>. The JavaScript numbers handed to the wallet are
  taken to be integers. The \<^verbatim>\<open>INTEGER\<close> columns (\<^verbatim>\<open>chessCC\<close>, \<^verbatim>\<open>amount\<close>, \<^verbatim>\<open>whiteHold\<close>,
  \<^verbatim>\<open>blackHold\<close>, \<^verbatim>\<open>stakeCC\<close>) hold 32-bit signed values: a write of a value outside that
  range does not wrap, it is refused (by the client's validation of the parameter, or by
  PostgreSQL with SQLSTATE 22003) and the statement throws.

  Of the constraints of the schema the model has the primary keys, the unique indexes on
  \<^verbatim>\<open>Match.lichessGameId\<close> and on \<^verbatim>\<open>TxLedger(userId, type, ref)\<close>, and the foreign keys from
  \<^verbatim>\<open>Escrow\<close> to \<^verbatim>\<open>Match\<close> and from \<^verbatim>\<open>TxLedger\<close> to \<^verbatim>\<open>User\<close>. The foreign keys of
  \<^verbatim>\<open>Match.whiteId\<close> and \<^verbatim>\<open>Match.blackId\<close> are not modelled: the only statement modelled that
  writes them is the upsert of the finish handler, which writes the id of the streaming
  user only after it has read that user's row, and ids it has read from \<^verbatim>\<open>User\<close>.
\<close>

datatype Result = W | L | D | abort

datatype TxType = gain | spend | stake_hold | stake_release | refund

datatype EscrowStatus = held | resolved | refunded

datatype Color = white | black

record User =
  u_id :: string
  lichessUsername :: "string option"

record Balance =
  b_userId :: string
  chessCC :: int

record TxLedger =
  tx_userId :: string
  tx_type :: TxType
  tx_amount :: int
  tx_ref :: "string option"

record Match =
  m_id :: string
  lichessGameId :: "string option"
  whiteId :: "string option"
  blackId :: "string option"
  stakeCC :: int
  m_result :: "Result option"

record Escrow =
  e_matchId :: string
  whiteHold :: int
  blackHold :: int
  status :: EscrowStatus

record db =
  users :: "User list"
  balances :: "Balance list"
  txLedger :: "TxLedger list"
  matches :: "Match list"
  escrows :: "Escrow list"

text \<open>
  What a statement can throw: the three errors the wallet raises itself, the Prisma
  errors of the schema's constraints (P2002 unique constraint, P2003 foreign key, P2025
  record to update not found), the refusal of an integer outside the 32-bit range, and the
  error of a malformed \<^verbatim>\<open>LIKE\<close> pattern.
\<close>

datatype error =
  INSUFFICIENT_FUNDS | MATCH_NOT_FOUND | WINNER_REQUIRED | P2002 | P2003 | P2025
  | OUT_OF_RANGE | LIKE_PATTERN

definition in_int4 :: "int \<Rightarrow> bool" where
  "in_int4 x = (- 2147483648 \<le> x \<and> x \<le> 2147483647)"

text \<open>JavaScript truthiness of a \<^verbatim>\<open>string | null | undefined\<close>: null and the empty string are falsy.\<close>

definition truthy :: "string option \<Rightarrow> bool" where
  "truthy x = (case x of None \<Rightarrow> False | Some s \<Rightarrow> s \<noteq> [])"

text \<open>Sequencing of awaited statements inside a transaction: the first throw ends it.\<close>

definition then_tx :: "error + 'a \<Rightarrow> ('a \<Rightarrow> error + 'b) \<Rightarrow> error + 'b" where
  "then_tx r f = (case r of Inl e \<Rightarrow> Inl e | Inr x \<Rightarrow> f x)"

text \<open>
  \<^verbatim>\<open>prisma.$transaction(async (tx) => ...)\<close>: when the callback throws, every write it made
  is rolled back and the error is thrown on; when it returns, its writes are committed.
  The result pairs the error thrown (if any) with the database afterwards.
\<close>

definition transaction :: "(db \<Rightarrow> error + db) \<Rightarrow> db \<Rightarrow> error option \<times> db" where
  "transaction body d = (case body d of Inl e \<Rightarrow> (Some e, d) | Inr d' \<Rightarrow> (None, d'))"

text \<open>Updating the one row a unique key selects.\<close>

fun upd_first :: "('a \<Rightarrow> bool) \<Rightarrow> ('a \<Rightarrow> 'a) \<Rightarrow> 'a list \<Rightarrow> 'a list" where
  "upd_first P f [] = []"
| "upd_first P f (x # xs) = (if P x then f x # xs else x # upd_first P f xs)"

subsection \<open>User\<close>

definition user_findUnique :: "string \<Rightarrow> db \<Rightarrow> User option" where
  "user_findUnique uid d = find (\<lambda>u. u_id u = uid) (users d)"

subsection \<open>Balance\<close>

definition balance_findUnique :: "string \<Rightarrow> db \<Rightarrow> Balance option" where
  "balance_findUnique uid d = find (\<lambda>b. b_userId b = uid) (balances d)"

text \<open>
  \<^verbatim>\<open>tx.balance.update({ where: { userId }, data: { ...(amount !== 0 ? { chessCC: { increment: amount } } : {}), updatedAt } })\<close>.
  The increment is refused when the amount or the new balance is outside the 32-bit range;
  with amount 0 the statement only touches \<^verbatim>\<open>updatedAt\<close>.
\<close>

definition balance_update :: "string \<Rightarrow> int \<Rightarrow> db \<Rightarrow> error + db" where
  "balance_update uid amount d =
     (if amount \<noteq> 0 \<and> \<not> in_int4 amount then Inl OUT_OF_RANGE
      else case balance_findUnique uid d of
        None \<Rightarrow> Inl P2025
      | Some b \<Rightarrow>
          if amount \<noteq> 0 \<and> \<not> in_int4 (chessCC b + amount) then Inl OUT_OF_RANGE
          else
            Inr (d\<lparr>balances :=
                   upd_first (\<lambda>b. b_userId b = uid)
                     (\<lambda>b. if amount \<noteq> 0 then b\<lparr>chessCC := chessCC b + amount\<rparr> else b)
                     (balances d)\<rparr>))"

subsection \<open>TxLedger\<close>

definition txLedger_findFirst :: "string \<Rightarrow> TxType \<Rightarrow> string option \<Rightarrow> db \<Rightarrow> TxLedger option" where
  "txLedger_findFirst uid ty r d =
     find (\<lambda>t. tx_userId t = uid \<and> tx_type t = ty \<and> tx_ref t = r) (txLedger d)"

text \<open>
  \<^verbatim>\<open>tx.txLedger.create\<close>: the amount must fit the 32-bit column; under the unique index
  \<^verbatim>\<open>TxLedger_user_type_ref_uq\<close> on \<^verbatim>\<open>(userId, type, ref)\<close> a second row with the same three values
  is refused, except that rows whose \<^verbatim>\<open>ref\<close> is NULL never collide (NULLs are distinct in a
  PostgreSQL unique index); and the user must exist (foreign key \<^verbatim>\<open>TxLedger_userId_fkey\<close>).
\<close>

definition txLedger_create :: "TxLedger \<Rightarrow> db \<Rightarrow> error + db" where
  "txLedger_create row d =
     (if \<not> in_int4 (tx_amount row) then Inl OUT_OF_RANGE
      else if tx_ref row \<noteq> None \<and>
         txLedger_findFirst (tx_userId row) (tx_type row) (tx_ref row) d \<noteq> None
      then Inl P2002
      else if user_findUnique (tx_userId row) d = None then Inl P2003
      else Inr (d\<lparr>txLedger := txLedger d @ [row]\<rparr>))"

subsection \<open>Match\<close>

definition match_findUnique :: "string \<Rightarrow> db \<Rightarrow> Match option" where
  "match_findUnique mid d = find (\<lambda>m. m_id m = mid) (matches d)"

definition match_findByGame :: "string \<Rightarrow> db \<Rightarrow> Match option" where
  "match_findByGame gid d = find (\<lambda>m. lichessGameId m = Some gid) (matches d)"

text \<open>
  \<^verbatim>\<open>match.update({ where: { id }, data })\<close>: P2025 when no row has the id, P2002 when the
  new \<^verbatim>\<open>lichessGameId\<close> is already the one of another row (unique index
  \<^verbatim>\<open>Match_lichessGameId_key\<close>).
\<close>

definition gameId_taken :: "string \<Rightarrow> string \<Rightarrow> db \<Rightarrow> bool" where
  "gameId_taken mid gid d = (\<exists>m \<in> set (matches d). m_id m \<noteq> mid \<and> lichessGameId m = Some gid)"

definition match_update :: "string \<Rightarrow> (Match \<Rightarrow> Match) \<Rightarrow> db \<Rightarrow> error + db" where
  "match_update mid f d =
     (case match_findUnique mid d of
        None \<Rightarrow> Inl P2025
      | Some m \<Rightarrow>
          (case lichessGameId (f m) of
             Some gid \<Rightarrow>
               if gameId_taken mid gid d then Inl P2002
               else Inr (d\<lparr>matches := upd_first (\<lambda>m. m_id m = mid) f (matches d)\<rparr>)
           | None \<Rightarrow> Inr (d\<lparr>matches := upd_first (\<lambda>m. m_id m = mid) f (matches d)\<rparr>)))"

subsection \<open>Escrow\<close>

definition escrow_findUnique :: "string \<Rightarrow> db \<Rightarrow> Escrow option" where
  "escrow_findUnique mid d = find (\<lambda>e. e_matchId e = mid) (escrows d)"

text \<open>
  \<^verbatim>\<open>escrow.create\<close>: the holds must fit the 32-bit columns; the primary key is \<^verbatim>\<open>matchId\<close>
  (P2002 when a row has it), which is also a foreign key into \<^verbatim>\<open>Match\<close> (P2003 when no
  match has that id).
\<close>

definition escrow_create :: "Escrow \<Rightarrow> db \<Rightarrow> error + db" where
  "escrow_create row d =
     (if \<not> (in_int4 (whiteHold row) \<and> in_int4 (blackHold row)) then Inl OUT_OF_RANGE
      else if escrow_findUnique (e_matchId row) d \<noteq> None then Inl P2002
      else if match_findUnique (e_matchId row) d = None then Inl P2003
      else Inr (d\<lparr>escrows := escrows d @ [row]\<rparr>))"

text \<open>\<^verbatim>\<open>escrow.update({ where: { matchId }, data })\<close>, with the same range for the holds written.\<close>

definition escrow_update :: "string \<Rightarrow> (Escrow \<Rightarrow> Escrow) \<Rightarrow> db \<Rightarrow> error + db" where
  "escrow_update mid f d =
     (case escrow_findUnique mid d of
        None \<Rightarrow> Inl P2025
      | Some e \<Rightarrow>
          if \<not> (in_int4 (whiteHold (f e)) \<and> in_int4 (blackHold (f e))) then Inl OUT_OF_RANGE
          else Inr (d\<lparr>escrows := upd_first (\<lambda>e. e_matchId e = mid) f (escrows d)\<rparr>))"

section \<open>The wallet\<close>

subsection \<open>ensureTx\<close>

text \<open>
  \<^verbatim>\<open>ensureTx(tx, { userId, type, amount, ref })\<close>. With \<^verbatim>\<open>ref = params.ref ?? null\<close>, the
  existing row is looked up only when \<^verbatim>\<open>ref\<close> is truthy; when one is found it is returned
  and nothing is written. Otherwise the row is created and the balance is updated.
\<close>

definition ensureTx :: "string \<Rightarrow> TxType \<Rightarrow> int \<Rightarrow> string option \<Rightarrow> db \<Rightarrow> error + (TxLedger \<times> db)" where
  "ensureTx uid ty amount r tx =
     (case (if truthy r then txLedger_findFirst uid ty r tx else None) of
        Some existing \<Rightarrow> Inr (existing, tx)
      | None \<Rightarrow>
          (let created = \<lparr>tx_userId = uid, tx_type = ty, tx_amount = amount, tx_ref = r\<rparr>
           in then_tx (txLedger_create created tx) (\<lambda>tx1.
              then_tx (balance_update uid amount tx1) (\<lambda>tx2.
              Inr (created, tx2)))))"

text \<open>The callers of \<^verbatim>\<open>ensureTx\<close> drop the row it returns.\<close>

definition ensureTx_do :: "string \<Rightarrow> TxType \<Rightarrow> int \<Rightarrow> string option \<Rightarrow> db \<Rightarrow> error + db" where
  "ensureTx_do uid ty amount r tx = then_tx (ensureTx uid ty amount r tx) (\<lambda>p. Inr (snd p))"

subsection \<open>holdStake\<close>

record HoldArgs =
  h_matchId :: string
  whoUserId :: string
  whoColor :: Color
  stake :: int

definition holdStake_tx :: "HoldArgs \<Rightarrow> db \<Rightarrow> error + db" where
  "holdStake_tx args tx =
     (case balance_findUnique (whoUserId args) tx of
        None \<Rightarrow> Inl INSUFFICIENT_FUNDS
      | Some bal \<Rightarrow>
          if chessCC bal < stake args then Inl INSUFFICIENT_FUNDS
          else
            then_tx (ensureTx_do (whoUserId args) stake_hold (- stake args) (Some (h_matchId args)) tx)
              (\<lambda>tx1.
                 case escrow_findUnique (h_matchId args) tx1 of
                   None \<Rightarrow>
                     escrow_create
                       \<lparr>e_matchId = h_matchId args,
                        whiteHold = (if whoColor args = white then stake args else 0),
                        blackHold = (if whoColor args = black then stake args else 0),
                        status = held\<rparr> tx1
                 | Some esc \<Rightarrow>
                     escrow_update (h_matchId args)
                       (\<lambda>e. e\<lparr>whiteHold := whiteHold esc + (if whoColor args = white then stake args else 0),
                              blackHold := blackHold esc + (if whoColor args = black then stake args else 0)\<rparr>)
                       tx1))"

definition holdStake :: "HoldArgs \<Rightarrow> db \<Rightarrow> error option \<times> db" where
  "holdStake args d = (if stake args \<le> 0 then (None, d) else transaction (holdStake_tx args) d)"

subsection \<open>resolveMatch\<close>

record ResolveArgs =
  r_matchId :: string
  r_lichessGameId :: string
  r_result :: Result
  winnerUserId :: "string option"
  whiteUserId :: "string option"
  blackUserId :: "string option"

text \<open>The branch for a draw or an abort: refund the holds of the sides that are named.\<close>

definition resolve_refund :: "ResolveArgs \<Rightarrow> int \<Rightarrow> int \<Rightarrow> db \<Rightarrow> error + db" where
  "resolve_refund args stakeWhite stakeBlack tx1 =
     then_tx
       (case whiteUserId args of
          Some w \<Rightarrow>
            if w \<noteq> [] \<and> stakeWhite > 0
            then ensureTx_do w refund stakeWhite (Some (r_lichessGameId args)) tx1
            else Inr tx1
        | None \<Rightarrow> Inr tx1)
       (\<lambda>tx2.
     then_tx
       (case blackUserId args of
          Some b \<Rightarrow>
            if b \<noteq> [] \<and> stakeBlack > 0
            then ensureTx_do b refund stakeBlack (Some (r_lichessGameId args)) tx2
            else Inr tx2
        | None \<Rightarrow> Inr tx2)
       (\<lambda>tx3. escrow_update (r_matchId args) (\<lambda>e. e\<lparr>status := refunded\<rparr>) tx3))"

text \<open>The branch for a win.\<close>

definition resolve_win :: "ResolveArgs \<Rightarrow> int \<Rightarrow> int \<Rightarrow> db \<Rightarrow> error + db" where
  "resolve_win args stakeWhite stakeBlack tx1 =
     (case winnerUserId args of
        None \<Rightarrow> Inl WINNER_REQUIRED
      | Some winner \<Rightarrow>
          if winner = [] then Inl WINNER_REQUIRED
          else
            let winnerIsWhite = (Some winner = whiteUserId args);
                winnerOwnStake = (if winnerIsWhite then stakeWhite else stakeBlack);
                loserStake = (if winnerIsWhite then stakeBlack else stakeWhite);
                loser = (if winnerIsWhite then blackUserId args else whiteUserId args)
            in
            then_tx
              (if winnerOwnStake > 0
               then ensureTx_do winner refund winnerOwnStake (Some (r_lichessGameId args)) tx1
               else Inr tx1)
              (\<lambda>tx2.
            then_tx
              (if loserStake > 0
               then ensureTx_do winner gain loserStake (Some (r_lichessGameId args)) tx2
               else Inr tx2)
              (\<lambda>tx3.
            then_tx
              (case loser of
                 Some l \<Rightarrow>
                   if l \<noteq> []
                   then ensureTx_do l stake_release 0 (Some (r_lichessGameId args)) tx3
                   else Inr tx3
               | None \<Rightarrow> Inr tx3)
              (\<lambda>tx4. escrow_update (r_matchId args) (\<lambda>e. e\<lparr>status := resolved\<rparr>) tx4))))"

definition resolveMatch_tx :: "ResolveArgs \<Rightarrow> db \<Rightarrow> error + db" where
  "resolveMatch_tx args tx =
     (case match_findUnique (r_matchId args) tx of
        None \<Rightarrow> Inl MATCH_NOT_FOUND
      | Some m \<Rightarrow>
          if m_result m \<noteq> None then Inr tx
          else
            let esc = escrow_findUnique (r_matchId args) tx;
                stakeWhite = (case esc of None \<Rightarrow> 0 | Some e \<Rightarrow> whiteHold e);
                stakeBlack = (case esc of None \<Rightarrow> 0 | Some e \<Rightarrow> blackHold e)
            in
            then_tx
              (match_update (r_matchId args)
                 (\<lambda>m. m\<lparr>lichessGameId := Some (r_lichessGameId args),
                        m_result := Some (r_result args)\<rparr>) tx)
              (\<lambda>tx1.
                 if esc = None \<or> (stakeWhite = 0 \<and> stakeBlack = 0) then Inr tx1
                 else if r_result args = D \<or> r_result args = abort
                 then resolve_refund args stakeWhite stakeBlack tx1
                 else if r_result args = W
                 then resolve_win args stakeWhite stakeBlack tx1
                 else Inr tx1))"

definition resolveMatch :: "ResolveArgs \<Rightarrow> db \<Rightarrow> error option \<times> db" where
  "resolveMatch args d = transaction (resolveMatch_tx args) d"

section \<open>The event handlers of the server\<close>

text \<open>
  The server (the Express application in \<^verbatim>\<open>chesscoin-backend/src\<close>) keeps two process-local
  maps beside the database:
  \<^verbatim>\<open>pendingStakeByUser\<close> (user id to match id) and \<^verbatim>\<open>pendingChallenges\<close> (match id to the
  pending challenge). Of a pending challenge the model keeps the two user ids, the stake,
  the \<^verbatim>\<open>started\<close> flag and whether its timer is still armed (\<^verbatim>\<open>clearTimeout\<close> disarms it);
  the clock settings are left out. The \<^verbatim>\<open>runningStreams\<close> book-keeping of the stream
  callback is left out as well.
\<close>

record PendingChallenge =
  pc_matchId :: string
  aUserId :: string
  bUserId :: string
  pc_stake :: int
  started :: bool
  timer_armed :: bool

record server =
  database :: db
  pendingStakeByUser :: "string \<rightharpoonup> string"
  pendingChallenges :: "string \<rightharpoonup> PendingChallenge"

text \<open>
  What the handler reads of the object \<^verbatim>\<open>fetchGameSummary\<close> returns: \<^verbatim>\<open>sum?.status\<close>,
  \<^verbatim>\<open>sum?.winner\<close> and, when \<^verbatim>\<open>sum?.players\<close> is there, for each colour the name
  \<^verbatim>\<open>players?.white?.user?.name ?? players?.white?.userId\<close>.
\<close>

record Players =
  white_name :: "string option"
  black_name :: "string option"

record GameSummary =
  sum_status :: "string option"
  sum_winner :: "string option"
  sum_players :: "Players option"

text \<open>
  JavaScript's \<^verbatim>\<open>toLowerCase\<close> on ASCII letters. The handlers take the lowering function as
  a parameter \<open>lc\<close>, so what is proved of them for every \<open>lc\<close> does not depend on this table;
  it is the instance used where a handler is evaluated.
\<close>

definition toLowerCase :: "string \<Rightarrow> string" where
  "toLowerCase s =
     map (\<lambda>c. case map_of (zip ''ABCDEFGHIJKLMNOPQRSTUVWXYZ'' ''abcdefghijklmnopqrstuvwxyz'') c of
                 Some l \<Rightarrow> l | None \<Rightarrow> c) s"

text \<open>
  \<^verbatim>\<open>db.user.findFirst({ where: { lichessUsername: { equals: name, mode: 'insensitive' } } })\<close>.
  Prisma turns the insensitive \<^verbatim>\<open>equals\<close> into PostgreSQL's \<^verbatim>\<open>ILIKE\<close> with the name as pattern,
  so \<^verbatim>\<open>_\<close> and \<^verbatim>\<open>%\<close> in the name are wildcards. The handlers take the operator as a
  parameter \<open>il\<close> (pattern first, then the column value; it may throw), so what is proved
  of them for every \<open>il\<close> does not depend on the details of the operator. The rows are
  scanned in table order; a row without user name does not match.
\<close>

fun users_findFirst :: "(string \<Rightarrow> string \<Rightarrow> error + bool) \<Rightarrow> string \<Rightarrow> User list \<Rightarrow> error + User option" where
  "users_findFirst il name [] = Inr None"
| "users_findFirst il name (u # us) =
     (case lichessUsername u of
        None \<Rightarrow> users_findFirst il name us
      | Some n \<Rightarrow>
          (case il name n of
             Inl e \<Rightarrow> Inl e
           | Inr m \<Rightarrow> if m then Inr (Some u) else users_findFirst il name us))"

definition user_findByUsername ::
  "(string \<Rightarrow> string \<Rightarrow> error + bool) \<Rightarrow> string \<Rightarrow> db \<Rightarrow> error + User option" where
  "user_findByUsername il name d = users_findFirst il name (users d)"

text \<open>
  The instance of the operator used where a handler is evaluated: \<^verbatim>\<open>LIKE\<close> on the lowered
  strings, with \<^verbatim>\<open>%\<close> for any sequence, \<^verbatim>\<open>_\<close> for any one character and the backslash as
  escape character; a pattern that ends in an escape character is an error.
\<close>

fun like_match :: "string \<Rightarrow> string \<Rightarrow> bool" where
  "like_match [] s = (s = [])"
| "like_match (p # ps) [] = (p = CHR ''%'' \<and> like_match ps [])"
| "like_match [p] (c # cs) =
     (if p = CHR ''%'' then True
      else if p = CHR ''_'' then cs = []
      else p = c \<and> p \<noteq> CHR 0x5C \<and> cs = [])"
| "like_match (p # q # ps) (c # cs) =
     (if p = CHR ''%'' then like_match (q # ps) (c # cs) \<or> like_match (p # q # ps) cs
      else if p = CHR ''_'' then like_match (q # ps) cs
      else if p = CHR 0x5C then q = c \<and> like_match ps cs
      else p = c \<and> like_match (q # ps) cs)"

fun bad_escape :: "string \<Rightarrow> bool" where
  "bad_escape [] = False"
| "bad_escape [p] = (p = CHR 0x5C)"
| "bad_escape (p # q # ps) = (if p = CHR 0x5C then bad_escape ps else bad_escape (q # ps))"

definition ilike :: "string \<Rightarrow> string \<Rightarrow> error + bool" where
  "ilike pattern s =
     (if bad_escape (toLowerCase pattern) then Inl LIKE_PATTERN
      else Inr (like_match (toLowerCase pattern) (toLowerCase s)))"

subsection \<open>gameStart\<close>

definition onGameStart :: "string \<Rightarrow> string \<Rightarrow> server \<Rightarrow> server" where
  "onGameStart userId gid s =
     (if gid = [] then s
      else case pendingStakeByUser s userId of
        None \<Rightarrow> s
      | Some matchId \<Rightarrow>
          if matchId = [] then s
          else
            (case match_update matchId (\<lambda>m. m\<lparr>lichessGameId := Some gid\<rparr>) (database s) of
               Inl e \<Rightarrow> s
             | Inr d1 \<Rightarrow>
                 s\<lparr>database := d1,
                   pendingChallenges :=
                     (case pendingChallenges s matchId of
                        None \<Rightarrow> pendingChallenges s
                      | Some pend \<Rightarrow>
                          (pendingChallenges s)
                            (matchId \<mapsto> pend\<lparr>started := True, timer_armed := False\<rparr>))\<rparr>))"

subsection \<open>gameFinish\<close>

text \<open>The colour of the current user, \<^verbatim>\<open>isWhite: boolean | undefined\<close>.\<close>

definition isWhite_of :: "(string \<Rightarrow> string) \<Rightarrow> User option \<Rightarrow> GameSummary \<Rightarrow> bool option" where
  "isWhite_of lc me summary =
     (case me of
        None \<Rightarrow> None
      | Some u \<Rightarrow>
          (case sum_players summary of
             None \<Rightarrow> None
           | Some p \<Rightarrow>
               if truthy (lichessUsername u)
               then
                 (let un = lc (case lichessUsername u of None \<Rightarrow> [] | Some n \<Rightarrow> n);
                      w = lc (case white_name p of None \<Rightarrow> [] | Some n \<Rightarrow> n);
                      b = lc (case black_name p of None \<Rightarrow> [] | Some n \<Rightarrow> n)
                  in if w = un then Some True else if b = un then Some False else None)
               else None))"

text \<open>The result for this user, \<^verbatim>\<open>'W' | 'D' | 'L' | null\<close>.\<close>

definition won :: "GameSummary \<Rightarrow> bool option \<Rightarrow> bool" where
  "won summary isWhite =
     ((sum_winner summary = Some ''white'' \<and> isWhite = Some True) \<or>
      (sum_winner summary = Some ''black'' \<and> isWhite = Some False))"

definition result_of :: "GameSummary \<Rightarrow> bool option \<Rightarrow> Result option" where
  "result_of summary isWhite =
     (if sum_status summary = Some ''draw'' then Some D
      else if truthy (sum_winner summary) \<and> isWhite \<noteq> None
      then (if won summary isWhite then Some W else Some L)
      else None)"

definition oppName_of :: "GameSummary \<Rightarrow> bool option \<Rightarrow> string option" where
  "oppName_of summary isWhite =
     (case isWhite of
        Some True \<Rightarrow> (case sum_players summary of None \<Rightarrow> None | Some p \<Rightarrow> black_name p)
      | Some False \<Rightarrow> (case sum_players summary of None \<Rightarrow> None | Some p \<Rightarrow> white_name p)
      | None \<Rightarrow> None)"

definition opponent_of ::
  "(string \<Rightarrow> string \<Rightarrow> error + bool) \<Rightarrow> GameSummary \<Rightarrow> bool option \<Rightarrow> db \<Rightarrow> error + string option" where
  "opponent_of il summary isWhite d =
     (case oppName_of summary isWhite of
        None \<Rightarrow> Inr None
      | Some n \<Rightarrow>
          if n = [] then Inr None
          else then_tx (user_findByUsername il n d) (\<lambda>opp. Inr (map_option u_id opp)))"

text \<open>
  \<^verbatim>\<open>db.match.upsert({ where: { lichessGameId }, update: { result: result ?? undefined }, create: {...} })\<close>.
  The id of a created row comes from the database; it is the parameter \<open>newId\<close> here, and
  a row created gets the column default \<^verbatim>\<open>stakeCC = 0\<close>.
\<close>

definition match_upsert ::
  "string \<Rightarrow> string \<Rightarrow> Result option \<Rightarrow> string option \<Rightarrow> string option \<Rightarrow> db \<Rightarrow> error + (Match \<times> db)" where
  "match_upsert gid newId res w b d =
     (case match_findByGame gid d of
        Some m \<Rightarrow>
          (let upd = (\<lambda>m. case res of None \<Rightarrow> m | Some r \<Rightarrow> m\<lparr>m_result := Some r\<rparr>)
           in Inr (upd m, d\<lparr>matches := upd_first (\<lambda>m. lichessGameId m = Some gid) upd (matches d)\<rparr>))
      | None \<Rightarrow>
          if match_findUnique newId d \<noteq> None then Inl P2002
          else
            (let m = \<lparr>m_id = newId, lichessGameId = Some gid, whiteId = w, blackId = b,
                      stakeCC = 0, m_result = res\<rparr>
             in Inr (m, d\<lparr>matches := matches d @ [m]\<rparr>)))"

text \<open>The flat reward of a game without stake.\<close>

definition casual_delta :: "GameSummary \<Rightarrow> bool option \<Rightarrow> int" where
  "casual_delta summary isWhite =
     (if sum_status summary = Some ''draw'' then 3
      else if \<not> truthy (sum_winner summary) then 1
      else if won summary isWhite then 8 else 1)"

text \<open>\<^verbatim>\<open>db.$transaction([db.balance.update(...), db.txLedger.create(...)])\<close>: both or neither.\<close>

definition casual_reward_tx :: "string \<Rightarrow> int \<Rightarrow> string \<Rightarrow> db \<Rightarrow> error + db" where
  "casual_reward_tx userId delta gid d =
     then_tx (balance_update userId delta d) (\<lambda>d1.
       txLedger_create \<lparr>tx_userId = userId, tx_type = gain, tx_amount = delta, tx_ref = Some gid\<rparr> d1)"

text \<open>
  The handler of a \<^verbatim>\<open>gameFinish\<close> event for the stream of \<open>userId\<close>, given the summary that
  \<^verbatim>\<open>fetchGameSummary\<close> returned. Its body is inside one \<^verbatim>\<open>try\<close>: a throw is logged and
  leaves what was committed before it.
\<close>

definition onGameFinish ::
  "(string \<Rightarrow> string) \<Rightarrow> (string \<Rightarrow> string \<Rightarrow> error + bool) \<Rightarrow>
   string \<Rightarrow> string \<Rightarrow> GameSummary \<Rightarrow> string \<Rightarrow> server \<Rightarrow> server" where
  "onGameFinish lc il userId gid summary newId s =
     (if gid = [] then s
      else
        let d = database s;
            isWhite = isWhite_of lc (user_findUnique userId d) summary;
            res = result_of summary isWhite
        in
        case opponent_of il summary isWhite d of
          Inl e \<Rightarrow> s
        | Inr opponentUserId \<Rightarrow>
        (case match_upsert gid newId res
               (if isWhite = Some True then Some userId
                else if truthy opponentUserId \<and> isWhite = Some False then opponentUserId else None)
               (if isWhite = Some False then Some userId
                else if truthy opponentUserId \<and> isWhite = Some True then opponentUserId else None)
               d of
          Inl e \<Rightarrow> s
        | Inr (m, d1) \<Rightarrow>
            if stakeCC m > 0 then
              (let winner =
                     (if res = Some W then
                        (case isWhite of
                           Some True \<Rightarrow> (if truthy (whiteId m) then whiteId m else Some userId)
                         | Some False \<Rightarrow> (if truthy (blackId m) then blackId m else Some userId)
                         | None \<Rightarrow> None)
                      else None)
               in case resolveMatch
                         \<lparr>r_matchId = m_id m, r_lichessGameId = gid,
                          r_result = (case res of None \<Rightarrow> abort | Some r \<Rightarrow> r),
                          winnerUserId = winner, whiteUserId = whiteId m, blackUserId = blackId m\<rparr>
                         d1 of
                    (Some e, d2) \<Rightarrow> s\<lparr>database := d2\<rparr>
                  | (None, d2) \<Rightarrow>
                      s\<lparr>database := d2,
                        pendingChallenges := (pendingChallenges s)(m_id m := None),
                        pendingStakeByUser :=
                          (case opponentUserId of
                             None \<Rightarrow> (pendingStakeByUser s)(userId := None)
                           | Some opp \<Rightarrow>
                               if opp = [] then (pendingStakeByUser s)(userId := None)
                               else ((pendingStakeByUser s)(userId := None))(opp := None))\<rparr>)
            else
              s\<lparr>database := snd (transaction (casual_reward_tx userId (casual_delta summary isWhite) gid) d1)\<rparr>))"

subsection \<open>The timers\<close>

text \<open>
  The callbacks that \<^verbatim>\<open>/play/staked/challenge\<close> and \<^verbatim>\<open>/queue/join\<close> arm for two minutes. Each
  closes over the match id and the two user ids; \<open>now\<close> is the rendering of \<^verbatim>\<open>Date.now()\<close>
  in the game id \<^verbatim>\<open>cancel-${Date.now()}\<close>.
\<close>

definition challenge_timeout :: "string \<Rightarrow> string \<Rightarrow> string \<Rightarrow> string \<Rightarrow> server \<Rightarrow> server" where
  "challenge_timeout matchId userId oppId now s =
     (let m = match_findUnique matchId (database s)
      in if \<not> truthy (case m of None \<Rightarrow> None | Some m \<Rightarrow> lichessGameId m) \<and>
            \<not> (case pendingChallenges s matchId of None \<Rightarrow> False | Some p \<Rightarrow> started p)
         then
           (case resolveMatch
                   \<lparr>r_matchId = matchId, r_lichessGameId = ''cancel-'' @ now, r_result = abort,
                    winnerUserId = None, whiteUserId = Some userId, blackUserId = Some oppId\<rparr>
                   (database s) of
              (Some e, d') \<Rightarrow> s
            | (None, d') \<Rightarrow>
                s\<lparr>database := d',
                  pendingStakeByUser := ((pendingStakeByUser s)(userId := None))(oppId := None),
                  pendingChallenges := (pendingChallenges s)(matchId := None)\<rparr>)
         else s)"

definition queue_timeout :: "string \<Rightarrow> string \<Rightarrow> string \<Rightarrow> string \<Rightarrow> server \<Rightarrow> server" where
  "queue_timeout matchId aId bId now s =
     (let m = match_findUnique matchId (database s)
      in if \<not> truthy (case m of None \<Rightarrow> None | Some m \<Rightarrow> lichessGameId m)
         then
           (case resolveMatch
                   \<lparr>r_matchId = matchId, r_lichessGameId = ''cancel-'' @ now, r_result = abort,
                    winnerUserId = None, whiteUserId = Some aId, blackUserId = Some bId\<rparr>
                   (database s) of
              (Some e, d') \<Rightarrow> s
            | (None, d') \<Rightarrow>
                s\<lparr>database := d',
                  pendingStakeByUser := ((pendingStakeByUser s)(aId := None))(bId := None)\<rparr>)
         else s)"

section \<open>Auxiliary notions for the statements and proofs\<close>

text \<open>The database after a ledger row has been appended and its amount applied to the balance.\<close>

definition post_tx :: "TxLedger \<Rightarrow> db \<Rightarrow> db" where
  "post_tx row d =
     d\<lparr>txLedger := txLedger d @ [row],
       balances := upd_first (\<lambda>b. b_userId b = tx_userId row)
                    (\<lambda>b. if tx_amount row \<noteq> 0 then b\<lparr>chessCC := chessCC b + tx_amount row\<rparr> else b)
                    (balances d)\<rparr>"

definition set_match :: "string \<Rightarrow> (Match \<Rightarrow> Match) \<Rightarrow> db \<Rightarrow> db" where
  "set_match mid f d = d\<lparr>matches := upd_first (\<lambda>m. m_id m = mid) f (matches d)\<rparr>"

definition set_escrow :: "string \<Rightarrow> (Escrow \<Rightarrow> Escrow) \<Rightarrow> db \<Rightarrow> db" where
  "set_escrow mid f d = d\<lparr>escrows := upd_first (\<lambda>e. e_matchId e = mid) f (escrows d)\<rparr>"

text \<open>The two sums of the conservation property.\<close>

definition balance_total :: "db \<Rightarrow> int" where
  "balance_total d = sum_list (map chessCC (balances d))"

definition held_amount :: "Escrow \<Rightarrow> int" where
  "held_amount e = (if status e = held then whiteHold e + blackHold e else 0)"

definition held_total :: "db \<Rightarrow> int" where
  "held_total d = sum_list (map held_amount (escrows d))"

definition total_cc :: "db \<Rightarrow> int" where
  "total_cc d = balance_total d + held_total d"

text \<open>
  A sequence of wallet calls. Each call is its own transaction; a call that throws leaves
  the database as it was and the sequence goes on.
\<close>

datatype call = Hold HoldArgs | Resolve ResolveArgs

fun exec_call :: "call \<Rightarrow> db \<Rightarrow> db" where
  "exec_call (Hold a) d = snd (holdStake a d)"
| "exec_call (Resolve a) d = snd (resolveMatch a d)"

fun run :: "call list \<Rightarrow> db \<Rightarrow> db" where
  "run [] d = d"
| "run (c # cs) d = run cs (exec_call c d)"

text \<open>
  The reward transaction of a game without stake goes through exactly when the account
  exists and has a balance row that the reward keeps in range, and has no gain entry under
  the game id yet.
\<close>

definition casual_ok :: "string \<Rightarrow> int \<Rightarrow> string \<Rightarrow> db \<Rightarrow> bool" where
  "casual_ok u delta gid d =
     (in_int4 delta \<and>
      (case balance_findUnique u d of
         None \<Rightarrow> False
       | Some b \<Rightarrow> delta \<noteq> 0 \<longrightarrow> in_int4 (chessCC b + delta)) \<and>
      txLedger_findFirst u gain (Some gid) d = None \<and>
      user_findUnique u d \<noteq> None)"

text \<open>The database after the reward transaction of a game without stake.\<close>

definition casual_db :: "string \<Rightarrow> int \<Rightarrow> string \<Rightarrow> db \<Rightarrow> db" where
  "casual_db u delta gid d = snd (transaction (casual_reward_tx u delta gid) d)"

text \<open>
  A finish signal for game \<open>gid\<close> is on a wager without stake when the match that the
  upsert finds has no positive \<open>stakeCC\<close>, or when there is none and one is created (with
  \<open>stakeCC = 0\<close>, under an id that is not in use).
\<close>

definition unstaked :: "string \<Rightarrow> string \<Rightarrow> db \<Rightarrow> bool" where
  "unstaked gid newId d =
     (case match_findByGame gid d of
        None \<Rightarrow> match_findUnique newId d = None
      | Some m \<Rightarrow> stakeCC m \<le> 0)"

section \<open>The scenario of the specification\<close>

text \<open>
  Accounts A and B with 100 CC each and a match \<open>m1\<close> with stake 20, as \<^verbatim>\<open>/queue/join\<close>
  creates it (no colours assigned); then both stakes held, A as white and B as black.
\<close>

definition db0 :: db where
  "db0 =
     \<lparr>users = [\<lparr>u_id = ''A'', lichessUsername = Some ''alice''\<rparr>,
               \<lparr>u_id = ''B'', lichessUsername = Some ''bob''\<rparr>],
      balances = [\<lparr>b_userId = ''A'', chessCC = 100\<rparr>, \<lparr>b_userId = ''B'', chessCC = 100\<rparr>],
      txLedger = [],
      matches = [\<lparr>m_id = ''m1'', lichessGameId = None, whiteId = None, blackId = None,
                  stakeCC = 20, m_result = None\<rparr>],
      escrows = []\<rparr>"

definition hold_A :: HoldArgs where
  "hold_A = \<lparr>h_matchId = ''m1'', whoUserId = ''A'', whoColor = white, stake = 20\<rparr>"

definition hold_B :: HoldArgs where
  "hold_B = \<lparr>h_matchId = ''m1'', whoUserId = ''B'', whoColor = black, stake = 20\<rparr>"

definition db_held :: db where
  "db_held = run [Hold hold_A, Hold hold_B] db0"

definition resolve_with :: "Result \<Rightarrow> string option \<Rightarrow> string option \<Rightarrow> string option \<Rightarrow> ResolveArgs" where
  "resolve_with r winner w b =
     \<lparr>r_matchId = ''m1'', r_lichessGameId = ''g1'', r_result = r,
      winnerUserId = winner, whiteUserId = w, blackUserId = b\<rparr>"

text \<open>The server after \<^verbatim>\<open>/queue/join\<close> has matched A and B, and the summary of a game A won as white.\<close>

definition s_wager :: server where
  "s_wager =
     \<lparr>database = db_held,
      pendingStakeByUser = [''A'' \<mapsto> ''m1'', ''B'' \<mapsto> ''m1''],
      pendingChallenges =
        [''m1'' \<mapsto> \<lparr>pc_matchId = ''m1'', aUserId = ''A'', bUserId = ''B'', pc_stake = 20,
                     started = False, timer_armed = True\<rparr>]\<rparr>"

definition sum_A_wins :: GameSummary where
  "sum_A_wins =
     \<lparr>sum_status = Some ''mate'', sum_winner = Some ''white'',
      sum_players = Some \<lparr>white_name = Some ''Alice'', black_name = Some ''Bob''\<rparr>\<rparr>"

text \<open>The summary of a game that was aborted: no winner, and not a draw.\<close>

definition sum_aborted :: GameSummary where
  "sum_aborted =
     \<lparr>sum_status = Some ''aborted'', sum_winner = None,
      sum_players = Some \<lparr>white_name = Some ''Alice'', black_name = Some ''Bob''\<rparr>\<rparr>"

text \<open>A database in which A already has a gain entry without reference.\<close>

definition db_dup :: db where
  "db_dup = db0\<lparr>txLedger := [\<lparr>tx_userId = ''A'', tx_type = gain, tx_amount = 5, tx_ref = None\<rparr>]\<rparr>"

text \<open>The server with nothing pending, before any wager.\<close>

definition s_idle :: server where
  "s_idle = \<lparr>database = db0, pendingStakeByUser = Map.empty, pendingChallenges = Map.empty\<rparr>"

text \<open>The database of the scenario when another match already carries the game id \<open>g1\<close>.\<close>

definition db_taken :: db where
  "db_taken =
     db_held\<lparr>matches := matches db_held @
        [\<lparr>m_id = ''m0'', lichessGameId = Some ''g1'', whiteId = Some ''A'', blackId = None,
          stakeCC = 0, m_result = Some D\<rparr>]\<rparr>"

text \<open>A database in which the balance of A is the largest value of the column.\<close>

definition db_rich :: db where
  "db_rich =
     db0\<lparr>balances := [\<lparr>b_userId = ''A'', chessCC = 2147483647\<rparr>,
                        \<lparr>b_userId = ''B'', chessCC = 100\<rparr>]\<rparr>"

definition s_rich :: server where
  "s_rich = \<lparr>database = db_rich, pendingStakeByUser = Map.empty, pendingChallenges = Map.empty\<rparr>"

text \<open>
  Two wagers at once: A against B on \<open>m1\<close> and C against D on \<open>m2\<close>, 100 CC each, stake 20
  each, all four stakes held, as two matched pairs of \<^verbatim>\<open>/queue/join\<close> leave it.
\<close>

definition db_two :: db where
  "db_two =
     run [Hold hold_A, Hold hold_B,
          Hold \<lparr>h_matchId = ''m2'', whoUserId = ''C'', whoColor = white, stake = 20\<rparr>,
          Hold \<lparr>h_matchId = ''m2'', whoUserId = ''D'', whoColor = black, stake = 20\<rparr>]
       \<lparr>users = [\<lparr>u_id = ''A'', lichessUsername = Some ''alice''\<rparr>,
                 \<lparr>u_id = ''B'', lichessUsername = Some ''bob''\<rparr>,
                 \<lparr>u_id = ''C'', lichessUsername = Some ''carol''\<rparr>,
                 \<lparr>u_id = ''D'', lichessUsername = Some ''dave''\<rparr>],
        balances = [\<lparr>b_userId = ''A'', chessCC = 100\<rparr>, \<lparr>b_userId = ''B'', chessCC = 100\<rparr>,
                    \<lparr>b_userId = ''C'', chessCC = 100\<rparr>, \<lparr>b_userId = ''D'', chessCC = 100\<rparr>],
        txLedger = [],
        matches = [\<lparr>m_id = ''m1'', lichessGameId = None, whiteId = None, blackId = None,
                    stakeCC = 20, m_result = None\<rparr>,
                   \<lparr>m_id = ''m2'', lichessGameId = None, whiteId = None, blackId = None,
                    stakeCC = 20, m_result = None\<rparr>],
        escrows = []\<rparr>"

definition s_two :: server where
  "s_two =
     \<lparr>database = db_two,
      pendingStakeByUser = [''A'' \<mapsto> ''m1'', ''B'' \<mapsto> ''m1'', ''C'' \<mapsto> ''m2'', ''D'' \<mapsto> ''m2''],
      pendingChallenges =
        [''m1'' \<mapsto> \<lparr>pc_matchId = ''m1'', aUserId = ''A'', bUserId = ''B'', pc_stake = 20,
                     started = False, timer_armed = True\<rparr>,
         ''m2'' \<mapsto> \<lparr>pc_matchId = ''m2'', aUserId = ''C'', bUserId = ''D'', pc_stake = 20,
                     started = False, timer_armed = True\<rparr>]\<rparr>"

section \<open>Lemmas about the tables and the wallet\<close>

subsection \<open>Lists\<close>

lemma find_SomeD: "find P xs = Some x \<Longrightarrow> P x"
  by (induction xs) (auto split: if_splits)

lemma find_upd_first_same:
  "find P xs = Some x \<Longrightarrow> P (f x) \<Longrightarrow> find P (upd_first P f xs) = Some (f x)"
  by (induction xs) (auto split: if_splits)

lemma find_upd_first_other:
  "(\<And>x. Q (f x) = Q x) \<Longrightarrow> (\<And>x. P x \<Longrightarrow> \<not> Q x) \<Longrightarrow> find Q (upd_first P f xs) = find Q xs"
  by (induction xs) auto

lemma upd_first_absent: "find P xs = None \<Longrightarrow> upd_first P f xs = xs"
  by (induction xs) (auto split: if_splits)

lemma upd_first_id: "find P xs = Some x \<Longrightarrow> f x = x \<Longrightarrow> upd_first P f xs = xs"
  by (induction xs) (auto split: if_splits)

lemma find_snoc:
  "find P (xs @ [x]) = (case find P xs of Some y \<Rightarrow> Some y | None \<Rightarrow> if P x then Some x else None)"
  by (induction xs) auto

subsection \<open>Sequencing\<close>

lemma then_tx_Inr [simp]: "then_tx (Inr x) f = f x"
  by (simp add: then_tx_def)

lemma then_tx_Inl [simp]: "then_tx (Inl e) f = Inl e"
  by (simp add: then_tx_def)

lemma then_tx_eq_Inr: "then_tx r f = Inr y \<longleftrightarrow> (\<exists>x. r = Inr x \<and> f x = Inr y)"
  by (cases r) auto

subsection \<open>Projections of the auxiliary updates\<close>

lemma post_tx_proj [simp]:
  "txLedger (post_tx row d) = txLedger d @ [row]"
  "matches (post_tx row d) = matches d"
  "escrows (post_tx row d) = escrows d"
  "users (post_tx row d) = users d"
  by (simp_all add: post_tx_def)

lemma post_tx_finds [simp]:
  "match_findUnique mid (post_tx row d) = match_findUnique mid d"
  "escrow_findUnique mid (post_tx row d) = escrow_findUnique mid d"
  "gameId_taken mid gid (post_tx row d) = gameId_taken mid gid d"
  by (simp_all add: match_findUnique_def escrow_findUnique_def gameId_taken_def)

lemma balance_post_tx:
  "balance_findUnique u (post_tx row d) =
     (if u = tx_userId row
      then map_option (\<lambda>b. b\<lparr>chessCC := chessCC b + tx_amount row\<rparr>) (balance_findUnique u d)
      else balance_findUnique u d)"
proof (cases "u = tx_userId row")
  case True
  let ?P = "\<lambda>b. b_userId b = u"
  let ?f = "\<lambda>b. if tx_amount row \<noteq> 0 then b\<lparr>chessCC := chessCC b + tx_amount row\<rparr> else b"
  show ?thesis
  proof (cases "find ?P (balances d)")
    case None
    then show ?thesis using True
      by (simp add: balance_findUnique_def post_tx_def upd_first_absent)
  next
    case (Some b)
    then have "?P b" by (rule find_SomeD)
    then have "?P (?f b)" by simp
    with Some have "find ?P (upd_first ?P ?f (balances d)) = Some (?f b)"
      by (rule find_upd_first_same)
    then show ?thesis using True Some
      by (simp add: balance_findUnique_def post_tx_def)
  qed
next
  case False
  have "find (\<lambda>b. b_userId b = u)
          (upd_first (\<lambda>b. b_userId b = tx_userId row)
             (\<lambda>b. if tx_amount row \<noteq> 0 then b\<lparr>chessCC := chessCC b + tx_amount row\<rparr> else b)
             (balances d)) = find (\<lambda>b. b_userId b = u) (balances d)"
    using False by (intro find_upd_first_other) auto
  then show ?thesis using False by (simp add: balance_findUnique_def post_tx_def)
qed

lemma ledger_post_tx:
  "txLedger_findFirst u ty r (post_tx row d) =
     (case txLedger_findFirst u ty r d of
        Some t \<Rightarrow> Some t
      | None \<Rightarrow> if tx_userId row = u \<and> tx_type row = ty \<and> tx_ref row = r then Some row else None)"
  by (simp add: txLedger_findFirst_def find_snoc)

lemma set_match_proj [simp]:
  "txLedger (set_match mid f d) = txLedger d"
  "balances (set_match mid f d) = balances d"
  "escrows (set_match mid f d) = escrows d"
  "users (set_match mid f d) = users d"
  by (simp_all add: set_match_def)

lemma set_match_finds [simp]:
  "balance_findUnique u (set_match mid f d) = balance_findUnique u d"
  "escrow_findUnique m (set_match mid f d) = escrow_findUnique m d"
  "txLedger_findFirst u ty r (set_match mid f d) = txLedger_findFirst u ty r d"
  "balance_total (set_match mid f d) = balance_total d"
  "held_total (set_match mid f d) = held_total d"
  by (simp_all add: balance_findUnique_def escrow_findUnique_def txLedger_findFirst_def
      balance_total_def held_total_def)

lemma match_set_match:
  "match_findUnique mid d = Some m \<Longrightarrow> m_id (f m) = mid \<Longrightarrow>
   match_findUnique mid (set_match mid f d) = Some (f m)"
  by (simp add: match_findUnique_def set_match_def find_upd_first_same)

lemma set_escrow_proj [simp]:
  "txLedger (set_escrow mid f d) = txLedger d"
  "balances (set_escrow mid f d) = balances d"
  "matches (set_escrow mid f d) = matches d"
  "users (set_escrow mid f d) = users d"
  by (simp_all add: set_escrow_def)

lemma set_escrow_finds [simp]:
  "balance_findUnique u (set_escrow mid f d) = balance_findUnique u d"
  "match_findUnique m (set_escrow mid f d) = match_findUnique m d"
  "txLedger_findFirst u ty r (set_escrow mid f d) = txLedger_findFirst u ty r d"
  "balance_total (set_escrow mid f d) = balance_total d"
  by (simp_all add: balance_findUnique_def match_findUnique_def txLedger_findFirst_def
      balance_total_def)

subsection \<open>The table operations in terms of the auxiliary updates\<close>

lemma match_update_ok:
  "match_findUnique mid d = Some m \<Longrightarrow> \<not> gameId_taken mid gid d \<Longrightarrow>
   match_update mid (\<lambda>m. m\<lparr>lichessGameId := Some gid, m_result := r\<rparr>) d =
     Inr (set_match mid (\<lambda>m. m\<lparr>lichessGameId := Some gid, m_result := r\<rparr>) d)"
  by (simp add: match_update_def set_match_def)

lemma match_update_ok':
  "match_findUnique mid d = Some m \<Longrightarrow> lichessGameId (f m) = Some gid \<Longrightarrow>
   \<not> gameId_taken mid gid d \<Longrightarrow> match_update mid f d = Inr (set_match mid f d)"
  by (simp add: match_update_def set_match_def)

lemma ensureTx_do_Inr:
  "ensureTx_do uid ty am r d = Inr d' \<Longrightarrow>
   d' = d \<or> (balance_findUnique uid d \<noteq> None \<and>
             d' = post_tx \<lparr>tx_userId = uid, tx_type = ty, tx_amount = am, tx_ref = r\<rparr> d)"
  by (auto simp: ensureTx_do_def ensureTx_def txLedger_create_def balance_update_def
      balance_findUnique_def post_tx_def Let_def then_tx_eq_Inr cong: if_cong
      split: option.splits if_splits)

lemma ensureTx_do_frame:
  assumes "ensureTx_do uid ty am r d = Inr d'"
  shows "matches d' = matches d" "escrows d' = escrows d" "users d' = users d"
  using ensureTx_do_Inr [OF assms] by auto

lemma escrow_update_Inr:
  "escrow_update mid f d = Inr d' \<Longrightarrow> d' = set_escrow mid f d"
  by (auto simp: escrow_update_def set_escrow_def split: option.splits if_splits)

lemma escrow_create_Inr:
  "escrow_create row d = Inr d' \<Longrightarrow>
   d' = d\<lparr>escrows := escrows d @ [row]\<rparr> \<and> escrow_findUnique (e_matchId row) d = None"
  by (auto simp: escrow_create_def split: if_splits)

subsection \<open>The four ways into a resolution\<close>

lemma resolveMatch_tx_open:
  assumes "match_findUnique (r_matchId args) d = Some m" and "m_result m = None"
    and "\<not> gameId_taken (r_matchId args) (r_lichessGameId args) d"
  shows "resolveMatch_tx args d =
     (let esc = escrow_findUnique (r_matchId args) d;
          stakeWhite = (case esc of None \<Rightarrow> 0 | Some e \<Rightarrow> whiteHold e);
          stakeBlack = (case esc of None \<Rightarrow> 0 | Some e \<Rightarrow> blackHold e);
          tx1 = set_match (r_matchId args)
                  (\<lambda>m. m\<lparr>lichessGameId := Some (r_lichessGameId args),
                         m_result := Some (r_result args)\<rparr>) d
      in if esc = None \<or> (stakeWhite = 0 \<and> stakeBlack = 0) then Inr tx1
         else if r_result args = D \<or> r_result args = abort
         then resolve_refund args stakeWhite stakeBlack tx1
         else if r_result args = W
         then resolve_win args stakeWhite stakeBlack tx1
         else Inr tx1)"
  using assms by (simp add: resolveMatch_tx_def match_update_ok Let_def)

lemma resolveMatch_tx_taken:
  assumes "match_findUnique (r_matchId args) d = Some m" and "m_result m = None"
    and "gameId_taken (r_matchId args) (r_lichessGameId args) d"
  shows "resolveMatch_tx args d = Inl P2002"
  using assms by (simp add: resolveMatch_tx_def match_update_def Let_def)

lemma resolveMatch_tx_done:
  assumes "match_findUnique (r_matchId args) d = Some m" and "m_result m \<noteq> None"
  shows "resolveMatch_tx args d = Inr d"
  using assms by (auto simp add: resolveMatch_tx_def)

lemma resolveMatch_tx_missing:
  assumes "match_findUnique (r_matchId args) d = None"
  shows "resolveMatch_tx args d = Inl MATCH_NOT_FOUND"
  using assms by (simp add: resolveMatch_tx_def)

subsection \<open>A hold and the balance of its account\<close>

lemma holdStake_tx_balance:
  assumes "holdStake_tx args d = Inr d'"
    and "balance_findUnique (whoUserId args) d = Some bal"
  shows "balance_findUnique (whoUserId args) d' = Some bal \<or>
         (stake args \<le> chessCC bal \<and>
          balance_findUnique (whoUserId args) d' = Some (bal\<lparr>chessCC := chessCC bal - stake args\<rparr>))"
proof -
  from assms have ge: "stake args \<le> chessCC bal"
    by (auto simp: holdStake_tx_def split: if_splits)
  from assms ge obtain tx1 where
    e: "ensureTx_do (whoUserId args) stake_hold (- stake args) (Some (h_matchId args)) d = Inr tx1"
    and b: "balances d' = balances tx1"
    by (auto simp: holdStake_tx_def then_tx_eq_Inr
        dest!: escrow_create_Inr escrow_update_Inr split: option.splits if_splits)
  have eq: "balance_findUnique (whoUserId args) d' = balance_findUnique (whoUserId args) tx1"
    using b by (simp add: balance_findUnique_def)
  from ensureTx_do_Inr [OF e] show ?thesis
    using assms(2) ge eq by (auto simp: balance_post_tx)
qed

subsection \<open>A resolution that returns has recorded a result\<close>

lemma opt_credit_frame:
  assumes "(case u of Some x \<Rightarrow> if x \<noteq> [] \<and> c then ensureTx_do x ty h r t else Inr t
            | None \<Rightarrow> Inr t) = Inr t'"
  shows "matches t' = matches t" "escrows t' = escrows t" "users t' = users t"
  using assms by (auto split: option.splits if_splits dest: ensureTx_do_frame)

lemma resolve_refund_frame:
  assumes "resolve_refund args sw sb t = Inr d'"
  shows "matches d' = matches t"
proof -
  from assms obtain t2 t3 where
    1: "(case whiteUserId args of Some w \<Rightarrow> if w \<noteq> [] \<and> sw > 0
            then ensureTx_do w refund sw (Some (r_lichessGameId args)) t else Inr t
          | None \<Rightarrow> Inr t) = Inr t2"
    and 2: "(case blackUserId args of Some b \<Rightarrow> if b \<noteq> [] \<and> sb > 0
            then ensureTx_do b refund sb (Some (r_lichessGameId args)) t2 else Inr t2
          | None \<Rightarrow> Inr t2) = Inr t3"
    and 3: "escrow_update (r_matchId args) (\<lambda>e. e\<lparr>status := refunded\<rparr>) t3 = Inr d'"
    unfolding resolve_refund_def then_tx_eq_Inr by blast
  from 3 have "matches d' = matches t3"
    by (auto dest: escrow_update_Inr)
  with opt_credit_frame(1) [OF 1] opt_credit_frame(1) [OF 2] show ?thesis by simp
qed

lemma resolve_win_frame:
  assumes "resolve_win args sw sb t = Inr d'"
  shows "matches d' = matches t"
proof -
  from assms obtain winner where w: "winnerUserId args = Some winner" "winner \<noteq> []"
    by (auto simp: resolve_win_def split: option.splits if_splits)
  let ?wiw = "Some winner = whiteUserId args"
  let ?own = "if ?wiw then sw else sb"
  let ?los = "if ?wiw then sb else sw"
  let ?loser = "if ?wiw then blackUserId args else whiteUserId args"
  let ?g = "Some (r_lichessGameId args)"
  from assms w obtain t2 t3 t4 where
    1: "(if ?own > 0 then ensureTx_do winner refund ?own ?g t else Inr t) = Inr t2"
    and 2: "(if ?los > 0 then ensureTx_do winner gain ?los ?g t2 else Inr t2) = Inr t3"
    and 3: "(case ?loser of Some l \<Rightarrow> if l \<noteq> [] then ensureTx_do l stake_release 0 ?g t3 else Inr t3
             | None \<Rightarrow> Inr t3) = Inr t4"
    and 4: "escrow_update (r_matchId args) (\<lambda>e. e\<lparr>status := resolved\<rparr>) t4 = Inr d'"
    unfolding resolve_win_def Let_def by (simp add: then_tx_eq_Inr) blast
  from 1 have "matches t2 = matches t" by (auto split: if_splits dest: ensureTx_do_frame)
  moreover from 2 have "matches t3 = matches t2" by (auto split: if_splits dest: ensureTx_do_frame)
  moreover from 3 have "matches t4 = matches t3"
    by (auto split: option.splits if_splits dest: ensureTx_do_frame)
  moreover from 4 have "matches d' = matches t4"
    by (auto dest: escrow_update_Inr)
  ultimately show ?thesis by simp
qed

lemma resolveMatch_tx_sets_result:
  assumes "resolveMatch_tx args d = Inr d'"
  shows "\<exists>m'. match_findUnique (r_matchId args) d' = Some m' \<and> m_result m' \<noteq> None"
proof (cases "match_findUnique (r_matchId args) d")
  case None
  then show ?thesis using assms by (simp add: resolveMatch_tx_missing)
next
  case (Some m)
  show ?thesis
  proof (cases "m_result m = None")
    case False
    then show ?thesis using assms Some by (simp add: resolveMatch_tx_done)
  next
    case True
    show ?thesis
    proof (cases "gameId_taken (r_matchId args) (r_lichessGameId args) d")
      case True
      then show ?thesis using assms Some \<open>m_result m = None\<close> by (simp add: resolveMatch_tx_taken)
    next
      case False
      let ?f = "\<lambda>m. m\<lparr>lichessGameId := Some (r_lichessGameId args), m_result := Some (r_result args)\<rparr>"
      let ?t1 = "set_match (r_matchId args) ?f d"
      have "m_id m = r_matchId args"
        using Some by (auto simp: match_findUnique_def dest: find_SomeD)
      then have f1: "match_findUnique (r_matchId args) ?t1 = Some (?f m)"
        using Some by (simp add: match_set_match)
      have "matches d' = matches ?t1"
        using assms
        by (auto simp: resolveMatch_tx_open [OF Some True False] Let_def
            split: if_splits dest: resolve_refund_frame resolve_win_frame)
      then have "match_findUnique (r_matchId args) d' = match_findUnique (r_matchId args) ?t1"
        by (simp add: match_findUnique_def)
      with f1 show ?thesis by simp
    qed
  qed
qed

section \<open>Lemmas about the handlers\<close>

subsection \<open>Timers\<close>

lemma timeout_linked:
  assumes "match_findUnique mid (database s) = Some m" and "truthy (lichessGameId m)"
  shows "challenge_timeout mid a b now s = s" and "queue_timeout mid a b now s = s"
  using assms by (simp_all add: challenge_timeout_def queue_timeout_def)

lemma timeout_after_start:
  assumes m: "match_findUnique mid (database s) = Some m"
    and h: "pendingStakeByUser s u = Some mid" "mid \<noteq> []" "gid \<noteq> []"
      "\<not> gameId_taken mid gid (database s)"
  shows "match_findUnique mid (database (onGameStart u gid s)) = Some (m\<lparr>lichessGameId := Some gid\<rparr>)"
    and "challenge_timeout mid a b now (onGameStart u gid s) = onGameStart u gid s"
    and "queue_timeout mid a b now (onGameStart u gid s) = onGameStart u gid s"
proof -
  let ?f = "\<lambda>m. m\<lparr>lichessGameId := Some gid\<rparr>"
  let ?s' = "onGameStart u gid s"
  have up: "match_update mid ?f (database s) = Inr (set_match mid ?f (database s))"
    using m h by (intro match_update_ok' [where gid = gid]) simp_all
  have db': "database ?s' = set_match mid ?f (database s)"
    using h up by (simp add: onGameStart_def)
  have "m_id m = mid" using m by (auto simp: match_findUnique_def dest: find_SomeD)
  then have f: "match_findUnique mid (database ?s') = Some (?f m)"
    using m by (simp add: db' match_set_match)
  then show "match_findUnique mid (database ?s') = Some (m\<lparr>lichessGameId := Some gid\<rparr>)" .
  have t: "truthy (lichessGameId (?f m))" using h by (simp add: truthy_def)
  from timeout_linked [OF f t]
  show "challenge_timeout mid a b now ?s' = ?s'" "queue_timeout mid a b now ?s' = ?s'" .
qed

subsection \<open>The reward of a game without stake\<close>

lemma casual_delta_values: "casual_delta sm iw = 3 \<or> casual_delta sm iw = 1 \<or> casual_delta sm iw = 8"
  by (simp add: casual_delta_def)

lemma casual_delta_range: "in_int4 (casual_delta sm iw)" "casual_delta sm iw \<noteq> 0"
  using casual_delta_values [of sm iw] by (auto simp: in_int4_def)

lemma casual_db_eq:
  "casual_db u delta gid d =
     (if casual_ok u delta gid d
      then post_tx \<lparr>tx_userId = u, tx_type = gain, tx_amount = delta, tx_ref = Some gid\<rparr> d
      else d)"
  by (auto simp: casual_db_def transaction_def casual_reward_tx_def balance_update_def
      txLedger_create_def txLedger_findFirst_def user_findUnique_def casual_ok_def post_tx_def
      then_tx_def in_int4_def cong: if_cong split: option.splits)

lemma casual_db_idem: "casual_db u delta gid (casual_db u delta gid d) = casual_db u delta gid d"
proof (cases "casual_ok u delta gid d")
  case False
  then show ?thesis by (simp add: casual_db_eq)
next
  case True
  let ?d2 = "post_tx \<lparr>tx_userId = u, tx_type = gain, tx_amount = delta, tx_ref = Some gid\<rparr> d"
  have "txLedger_findFirst u gain (Some gid) ?d2 \<noteq> None"
    by (simp add: ledger_post_tx split: option.splits)
  then have "\<not> casual_ok u delta gid ?d2" by (simp add: casual_ok_def)
  then show ?thesis using True by (simp add: casual_db_eq)
qed

lemma casual_db_frame:
  "users (casual_db u delta gid d) = users d"
  "matches (casual_db u delta gid d) = matches d"
  "escrows (casual_db u delta gid d) = escrows d"
  by (simp_all add: casual_db_eq)

lemma opponent_of_users:
  "users d' = users d \<Longrightarrow> opponent_of il sm iw d' = opponent_of il sm iw d"
  by (simp add: opponent_of_def user_findByUsername_def cong: option.case_cong if_cong)

lemma match_upsert_unstaked:
  assumes "unstaked gid newId d"
  shows "\<exists>m1 d1. match_upsert gid newId res w b d = Inr (m1, d1) \<and> stakeCC m1 \<le> 0 \<and>
           users d1 = users d \<and> balances d1 = balances d \<and> txLedger d1 = txLedger d \<and>
           escrows d1 = escrows d \<and>
           match_findByGame gid d1 = Some m1 \<and> (res \<noteq> None \<longrightarrow> m_result m1 = res)"
proof (cases "match_findByGame gid d")
  case None
  then show ?thesis using assms
    by (simp add: match_upsert_def unstaked_def match_findByGame_def find_snoc Let_def)
next
  case (Some m)
  let ?upd = "\<lambda>m. case res of None \<Rightarrow> m | Some r \<Rightarrow> m\<lparr>m_result := Some r\<rparr>"
  let ?P = "\<lambda>m. lichessGameId m = Some gid"
  have f: "find ?P (matches d) = Some m" using Some by (simp add: match_findByGame_def)
  then have "?P m" by (rule find_SomeD)
  then have "?P (?upd m)" by (simp split: option.splits)
  with f have "find ?P (upd_first ?P ?upd (matches d)) = Some (?upd m)"
    by (rule find_upd_first_same)
  moreover have "stakeCC (?upd m) \<le> 0" using assms Some
    by (simp add: unstaked_def split: option.splits)
  moreover have "res \<noteq> None \<longrightarrow> m_result (?upd m) = res" by (auto split: option.splits)
  ultimately show ?thesis using Some
    by (simp add: match_upsert_def match_findByGame_def Let_def)
qed

lemma match_upsert_again:
  assumes "match_findByGame gid d = Some m1" and "res \<noteq> None \<longrightarrow> m_result m1 = res"
  shows "match_upsert gid newId res w b d = Inr (m1, d)"
proof -
  let ?upd = "\<lambda>m. case res of None \<Rightarrow> m | Some r \<Rightarrow> m\<lparr>m_result := Some r\<rparr>"
  let ?P = "\<lambda>m. lichessGameId m = Some gid"
  have f: "find ?P (matches d) = Some m1" using assms by (simp add: match_findByGame_def)
  have u: "?upd m1 = m1" using assms(2) by (auto split: option.splits)
  have "upd_first ?P ?upd (matches d) = matches d"
    using f u by (rule upd_first_id)
  with u show ?thesis using assms(1)
    by (simp add: match_upsert_def Let_def)
qed

lemma onGameFinish_opp_error:
  assumes "opponent_of il sm (isWhite_of lc (user_findUnique u (database s)) sm) (database s) = Inl e"
  shows "onGameFinish lc il u gid sm newId s = s"
  using assms by (simp add: onGameFinish_def Let_def)

lemma onGameFinish_casual_step:
  assumes g: "gid \<noteq> []"
    and iw: "iw = isWhite_of lc (user_findUnique u (database s)) sm"
    and opp: "opponent_of il sm iw (database s) = Inr opp"
    and w: "w = (if iw = Some True then Some u
                 else if truthy opp \<and> iw = Some False then opp else None)"
    and b: "b = (if iw = Some False then Some u
                 else if truthy opp \<and> iw = Some True then opp else None)"
    and up: "match_upsert gid newId (result_of sm iw) w b (database s) = Inr (m1, d1)"
    and st: "stakeCC m1 \<le> 0"
  shows "onGameFinish lc il u gid sm newId s =
           s\<lparr>database := casual_db u (casual_delta sm iw) gid d1\<rparr>"
proof -
  have g': "(gid = []) = False" using g by simp
  have st': "(0 < stakeCC m1) = False" using st by simp
  show ?thesis
    unfolding onGameFinish_def Let_def iw [symmetric]
    by (simp only: g' if_False opp sum.case w [symmetric] b [symmetric] up prod.case st'
        casual_db_def)
qed

lemma onGameFinish_unstaked:
  assumes g: "gid \<noteq> []" and un: "unstaked gid newId (database s)"
    and opp: "opponent_of il sm (isWhite_of lc (user_findUnique u (database s)) sm) (database s) = Inr opp"
  shows "\<exists>m1 d1. match_findByGame gid d1 = Some m1 \<and> stakeCC m1 \<le> 0 \<and>
           (result_of sm (isWhite_of lc (user_findUnique u (database s)) sm) \<noteq> None \<longrightarrow>
              m_result m1 = result_of sm (isWhite_of lc (user_findUnique u (database s)) sm)) \<and>
           users d1 = users (database s) \<and> balances d1 = balances (database s) \<and>
           txLedger d1 = txLedger (database s) \<and> escrows d1 = escrows (database s) \<and>
           onGameFinish lc il u gid sm newId s =
             s\<lparr>database := casual_db u
                 (casual_delta sm (isWhite_of lc (user_findUnique u (database s)) sm)) gid d1\<rparr>"
proof -
  let ?d = "database s"
  let ?iw = "isWhite_of lc (user_findUnique u ?d) sm"
  let ?res = "result_of sm ?iw"
  let ?w = "if ?iw = Some True then Some u
            else if truthy opp \<and> ?iw = Some False then opp else None"
  let ?b = "if ?iw = Some False then Some u
            else if truthy opp \<and> ?iw = Some True then opp else None"
  from match_upsert_unstaked [OF un, of ?res ?w ?b] obtain m1 d1 where
    up: "match_upsert gid newId ?res ?w ?b ?d = Inr (m1, d1)"
    and st: "stakeCC m1 \<le> 0"
    and fr: "users d1 = users ?d" "balances d1 = balances ?d" "txLedger d1 = txLedger ?d"
      "escrows d1 = escrows ?d"
    and f: "match_findByGame gid d1 = Some m1" "?res \<noteq> None \<longrightarrow> m_result m1 = ?res"
    by blast
  have "onGameFinish lc il u gid sm newId s = s\<lparr>database := casual_db u (casual_delta sm ?iw) gid d1\<rparr>"
    using g refl opp refl refl up st by (rule onGameFinish_casual_step)
  with st fr f show ?thesis by blast
qed

text \<open>The reward by the colour of the account and the winner of the game.\<close>

lemma casual_delta_table:
  "(sum_status sm = Some ''draw'' \<longrightarrow> casual_delta sm (isWhite_of lc me sm) = 3) \<and>
   (sum_status sm \<noteq> Some ''draw'' \<and> \<not> truthy (sum_winner sm) \<longrightarrow>
      casual_delta sm (isWhite_of lc me sm) = 1) \<and>
   (sum_status sm \<noteq> Some ''draw'' \<and>
    (me = None \<or> \<not> truthy (case me of None \<Rightarrow> None | Some usr \<Rightarrow> lichessUsername usr) \<or>
     sum_players sm = None) \<longrightarrow>
      casual_delta sm (isWhite_of lc me sm) = 1) \<and>
   (\<forall>usr name p.
      sum_status sm \<noteq> Some ''draw'' \<and> me = Some usr \<and> lichessUsername usr = Some name \<and>
      name \<noteq> [] \<and> sum_players sm = Some p \<longrightarrow>
      (let un = lc name;
           w = lc (case white_name p of None \<Rightarrow> [] | Some n \<Rightarrow> n);
           b = lc (case black_name p of None \<Rightarrow> [] | Some n \<Rightarrow> n)
       in (w = un \<and> sum_winner sm = Some ''white'' \<longrightarrow>
             casual_delta sm (isWhite_of lc me sm) = 8) \<and>
          (w = un \<and> sum_winner sm \<noteq> Some ''white'' \<longrightarrow>
             casual_delta sm (isWhite_of lc me sm) = 1) \<and>
          (w \<noteq> un \<and> b = un \<and> sum_winner sm = Some ''black'' \<longrightarrow>
             casual_delta sm (isWhite_of lc me sm) = 8) \<and>
          (w \<noteq> un \<and> b = un \<and> sum_winner sm \<noteq> Some ''black'' \<longrightarrow>
             casual_delta sm (isWhite_of lc me sm) = 1) \<and>
          (w \<noteq> un \<and> b \<noteq> un \<longrightarrow> casual_delta sm (isWhite_of lc me sm) = 1)))"
  by (auto simp: casual_delta_def isWhite_of_def won_def truthy_def Let_def
      split: option.splits)

subsection \<open>The scenarios on the code paths that name both sides\<close>

text \<open>
  Called on the unresolved match with both sides named, \<^verbatim>\<open>resolveMatch\<close> settles a win as
  its documentation says: winner 120, loser 80, escrow resolved, one gain entry for the
  winner and one release entry of amount 0 for the loser.
\<close>

lemma resolveMatch_win_scenario:
  "(let d = snd (resolveMatch (resolve_with W (Some ''A'') (Some ''A'') (Some ''B'')) db_held)
    in map chessCC (balances d) = [120, 80] \<and>
       map status (escrows d) = [resolved] \<and>
       filter (\<lambda>t. tx_type t = gain) (txLedger d) =
         [\<lparr>tx_userId = ''A'', tx_type = gain, tx_amount = 20, tx_ref = Some ''g1''\<rparr>] \<and>
       filter (\<lambda>t. tx_type t = stake_release) (txLedger d) =
         [\<lparr>tx_userId = ''B'', tx_type = stake_release, tx_amount = 0, tx_ref = Some ''g1''\<rparr>])"
  by code_simp

text \<open>
  Called with both sides named, a draw gives both holds back: balances 100 and 100, two
  refund entries under the game id, escrow refunded.
\<close>

lemma resolveMatch_draw_scenario:
  "(let d = snd (resolveMatch (resolve_with D None (Some ''A'') (Some ''B'')) db_held)
    in map chessCC (balances d) = [100, 100] \<and>
       map status (escrows d) = [refunded] \<and>
       filter (\<lambda>t. tx_type t = refund) (txLedger d) =
         [\<lparr>tx_userId = ''A'', tx_type = refund, tx_amount = 20, tx_ref = Some ''g1''\<rparr>,
          \<lparr>tx_userId = ''B'', tx_type = refund, tx_amount = 20, tx_ref = Some ''g1''\<rparr>])"
  by code_simp

text \<open>
  The finish handler passes the \<^verbatim>\<open>whiteId\<close> and \<^verbatim>\<open>blackId\<close> of the match as the two sides. For a
  match made by \<^verbatim>\<open>/queue/join\<close> or \<^verbatim>\<open>/play/staked/challenge\<close> both are null, so when the game
  of a linked match ends aborted (no winner, not a draw), the match is resolved as an abort
  with no side named: the escrow is marked refunded and nobody is refunded.
\<close>

lemma finish_abort_destroys_holds:
  "(let d = database (onGameFinish toLowerCase ilike ''A'' ''g1'' sum_aborted ''m2''
                       (onGameStart ''A'' ''g1'' s_wager))
    in map chessCC (balances d) = [80, 80] \<and>
       map status (escrows d) = [refunded] \<and>
       filter (\<lambda>t. tx_type t = refund) (txLedger d) = [] \<and>
       total_cc d = 160)"
  by code_simp

text \<open>
  A single timer that fires on the wager still waiting for its start signal names both
  sides, and both get their hold back.
\<close>

lemma queue_timeout_scenario:
  "(let d = database (queue_timeout ''m1'' ''A'' ''B'' ''1700000000000'' s_wager)
    in map chessCC (balances d) = [100, 100] \<and>
       map status (escrows d) = [refunded] \<and>
       map m_result (matches d) = [Some abort])"
  by code_simp

lemma challenge_timeout_scenario:
  "(let d = database (challenge_timeout ''m1'' ''A'' ''B'' ''1700000000000'' s_wager)
    in map chessCC (balances d) = [100, 100] \<and>
       map status (escrows d) = [refunded] \<and>
       map m_result (matches d) = [Some abort])"
  by code_simp

section \<open>The claims\<close>

subsection \<open>C1\<close>

text \<open>
  C1 (conservation). The code does not keep the sum of all balances and of all holds still
  in escrow constant. A and B hold 20 each (total 200: balances 160, escrow 40); the match
  is then resolved as an abort with neither side named, which is what the finish handler
  passes for a match whose \<^verbatim>\<open>whiteId\<close> and \<^verbatim>\<open>blackId\<close> were never set. Each refund is guarded
  by the account id of its side, the update of the escrow is not: the escrow becomes
  refunded, no refund entry is written, the balances stay at 80 and 80, and the total is
  160. The documentation of \<^verbatim>\<open>resolveMatch\<close> says of this branch that both holds are refunded
  in full.
\<close>

theorem abort_unnamed_sides_destroys_holds:
  "(let d = run [Hold hold_A, Hold hold_B, Resolve (resolve_with abort None None None)] db0
    in total_cc db0 = 200 \<and> total_cc d = 160 \<and>
       map chessCC (balances d) = [80, 80] \<and>
       map status (escrows d) = [refunded] \<and>
       filter (\<lambda>t. tx_type t = refund) (txLedger d) = [])"
  by code_simp

subsection \<open>C2\<close>

text \<open>
  C2 (A and B stake 20 each, a finish signal reports that A won). On the code the finish
  handler does not reach the expected end state. After the start signal has attached the
  game id to the match, the handler's upsert finds that match and writes the result \<open>W\<close>
  into it before it calls \<^verbatim>\<open>resolveMatch\<close>, which then sees a match that already has a
  result and returns at once: both balances stay at 80, the escrow stays held, and the
  ledger gets neither a gain nor a release entry.
\<close>

theorem finish_signal_win_not_settled:
  "(let d = database (onGameFinish toLowerCase ilike ''A'' ''g1'' sum_A_wins ''m2''
                       (onGameStart ''A'' ''g1'' s_wager))
    in map chessCC (balances d) = [80, 80] \<and>
       map status (escrows d) = [held] \<and>
       filter (\<lambda>t. tx_type t = gain \<or> tx_type t = stake_release) (txLedger d) = [] \<and>
       map m_result (matches d) = [Some W])"
  by code_simp

subsection \<open>C3\<close>

text \<open>
  C3 (idempotence of \<^verbatim>\<open>resolveMatch\<close>). For all arguments and every database, a second
  call with the same arguments leaves the database exactly as the first call left it (so no
  ledger entry is added and no balance changes); and a call on a match that already has a
  result returns without error and changes nothing.
\<close>

theorem resolveMatch_idempotent:
  "snd (resolveMatch args (snd (resolveMatch args d))) = snd (resolveMatch args d) \<and>
   ((\<exists>m. match_findUnique (r_matchId args) d = Some m \<and> m_result m \<noteq> None) \<longrightarrow>
      resolveMatch args d = (None, d))"
proof
  show "snd (resolveMatch args (snd (resolveMatch args d))) = snd (resolveMatch args d)"
  proof (cases "resolveMatch_tx args d")
    case (Inl e)
    then show ?thesis by (simp add: resolveMatch_def transaction_def)
  next
    case (Inr d')
    from resolveMatch_tx_sets_result [OF Inr] obtain m' where
      "match_findUnique (r_matchId args) d' = Some m'" "m_result m' \<noteq> None" by blast
    then have "resolveMatch_tx args d' = Inr d'" by (rule resolveMatch_tx_done)
    with Inr show ?thesis by (simp add: resolveMatch_def transaction_def)
  qed
next
  show "(\<exists>m. match_findUnique (r_matchId args) d = Some m \<and> m_result m \<noteq> None) \<longrightarrow>
      resolveMatch args d = (None, d)"
    by (auto simp: resolveMatch_def transaction_def resolveMatch_tx_done)
qed

text \<open>
  In the scenario the first call settles the wager (it changes the database) and the second
  one changes nothing.
\<close>

theorem resolveMatch_idempotent_witness:
  "(\<exists>m. match_findUnique ''m1'' (snd (resolveMatch (resolve_with W (Some ''A'') (Some ''A'') (Some ''B'')) db_held)) = Some m
        \<and> m_result m \<noteq> None) \<and>
   snd (resolveMatch (resolve_with W (Some ''A'') (Some ''A'') (Some ''B'')) db_held) \<noteq> db_held \<and>
   snd (resolveMatch (resolve_with W (Some ''A'') (Some ''A'') (Some ''B''))
          (snd (resolveMatch (resolve_with W (Some ''A'') (Some ''A'') (Some ''B'')) db_held))) =
   snd (resolveMatch (resolve_with W (Some ''A'') (Some ''A'') (Some ''B'')) db_held) \<and>
   resolveMatch (resolve_with W (Some ''A'') (Some ''A'') (Some ''B''))
          (snd (resolveMatch (resolve_with W (Some ''A'') (Some ''A'') (Some ''B'')) db_held)) =
   (None, snd (resolveMatch (resolve_with W (Some ''A'') (Some ''A'') (Some ''B'')) db_held))"
proof -
  let ?a = "resolve_with W (Some ''A'') (Some ''A'') (Some ''B'')"
  let ?d1 = "snd (resolveMatch ?a db_held)"
  have id: "r_matchId ?a = ''m1''" by (simp add: resolve_with_def)
  have h: "\<exists>m. match_findUnique ''m1'' ?d1 = Some m \<and> m_result m \<noteq> None"
  proof -
    have "map_option m_result (match_findUnique ''m1'' ?d1) = Some (Some W)" by code_simp
    then show ?thesis by auto
  qed
  have ne: "?d1 \<noteq> db_held" by code_simp
  from resolveMatch_idempotent [of ?a db_held] have 1: "snd (resolveMatch ?a ?d1) = ?d1" by simp
  from resolveMatch_idempotent [of ?a ?d1] h id have 2: "resolveMatch ?a ?d1 = (None, ?d1)" by simp
  from h ne 1 2 show ?thesis by blast
qed

subsection \<open>C4\<close>

text \<open>
  C4 (draw or abort). The code does not refund every wager that is resolved as a draw or an
  abort with something in escrow. In the draw scenario (A and B hold 20 each) resolved with
  neither side named, the call returns without error, the escrow is marked refunded, the
  balances stay at 80 and 80 and no refund entry exists: each refund is guarded by
  \<^verbatim>\<open>args.whiteUserId && stakeWhite > 0\<close> (and the same for black), the update of the escrow by
  nothing. The documentation of the function and the comment on the branch both say that
  the two holds are refunded in full, and the timers, which name both sides, do refund.
  It is the defect of C1, seen on one call.
\<close>

theorem draw_unnamed_sides_not_refunded:
  "(let r = resolveMatch (resolve_with D None None None) db_held
    in fst r = None \<and>
       map status (escrows (snd r)) = [refunded] \<and>
       map chessCC (balances (snd r)) = [80, 80] \<and>
       filter (\<lambda>t. tx_type t = refund) (txLedger (snd r)) = [])"
  by code_simp

subsection \<open>C5\<close>

text \<open>
  C5 (insufficient funds). For an account whose balance is not negative (the invariant of
  the balance table): when the balance is less than the stake, \<^verbatim>\<open>holdStake\<close> fails with
  \<^verbatim>\<open>INSUFFICIENT_FUNDS\<close> and the database is unchanged (no ledger entry, no balance change, no
  escrow change); and whatever the stake and the outcome of the call, the balance of the
  account is not negative afterwards.
\<close>

theorem holdStake_insufficient_funds:
  assumes "balance_findUnique (whoUserId args) d = Some bal" and "0 \<le> chessCC bal"
  shows "(chessCC bal < stake args \<longrightarrow> holdStake args d = (Some INSUFFICIENT_FUNDS, d)) \<and>
         (\<exists>bal'. balance_findUnique (whoUserId args) (snd (holdStake args d)) = Some bal' \<and>
                  0 \<le> chessCC bal')"
proof
  show "chessCC bal < stake args \<longrightarrow> holdStake args d = (Some INSUFFICIENT_FUNDS, d)"
    using assms by (simp add: holdStake_def transaction_def holdStake_tx_def)
next
  show "\<exists>bal'. balance_findUnique (whoUserId args) (snd (holdStake args d)) = Some bal' \<and>
               0 \<le> chessCC bal'"
  proof (cases "stake args \<le> 0")
    case True
    then show ?thesis using assms by (simp add: holdStake_def)
  next
    case False
    show ?thesis
    proof (cases "holdStake_tx args d")
      case (Inl e)
      then show ?thesis using False assms by (simp add: holdStake_def transaction_def)
    next
      case (Inr d')
      from holdStake_tx_balance [OF Inr assms(1)] show ?thesis
        using False assms(2) Inr by (auto simp: holdStake_def transaction_def)
    qed
  qed
qed

text \<open>
  A stake of 150 against a balance of 100 is refused; a stake of 20 leaves 80.
\<close>

theorem holdStake_insufficient_funds_witness:
  "balance_findUnique ''A'' db0 = Some \<lparr>b_userId = ''A'', chessCC = 100\<rparr> \<and>
   0 \<le> chessCC \<lparr>b_userId = ''A'', chessCC = 100\<rparr> \<and>
   chessCC \<lparr>b_userId = ''A'', chessCC = 100\<rparr> < 150 \<and>
   holdStake \<lparr>h_matchId = ''m1'', whoUserId = ''A'', whoColor = white, stake = 150\<rparr> db0 =
     (Some INSUFFICIENT_FUNDS, db0) \<and>
   (\<exists>bal'. balance_findUnique ''A'' (snd (holdStake hold_A db0)) = Some bal' \<and> 0 \<le> chessCC bal')"
proof -
  let ?a = "\<lparr>h_matchId = ''m1'', whoUserId = ''A'', whoColor = white, stake = 150\<rparr>"
  let ?b = "\<lparr>b_userId = ''A'', chessCC = 100\<rparr>"
  have h: "balance_findUnique (whoUserId ?a) db0 = Some ?b" by code_simp
  have h': "balance_findUnique (whoUserId hold_A) db0 = Some ?b" by code_simp
  have n: "0 \<le> chessCC ?b" by simp
  from holdStake_insufficient_funds [OF h n] have 1: "holdStake ?a db0 = (Some INSUFFICIENT_FUNDS, db0)"
    by simp
  from holdStake_insufficient_funds [OF h' n]
  have 2: "\<exists>bal'. balance_findUnique ''A'' (snd (holdStake hold_A db0)) = Some bal' \<and> 0 \<le> chessCC bal'"
    by (simp add: hold_A_def)
  from h 1 2 show ?thesis by simp
qed

subsection \<open>C6\<close>

text \<open>
  C6 (flat reward of a game without stake), as the code has it. For a finish signal whose
  match has no positive stake (or has no match yet, so that one is created with stake 0):
  the handler leaves the escrow table alone. The reward is 3 when the status of the game
  is a draw; otherwise 1 when the summary names no winner, or when the account, its
  lichess name or the players of the summary are missing; otherwise, comparing the lowered
  names, 8 when the account is the white player and white won or when it is not the white
  player, is the black player and black won, and 1 in every other case (a loss, or a
  game in which the account is neither player). When the account exists with a balance row,
  the balance plus the reward still fits the 32-bit column, there is no gain entry under
  this game id yet, and the lookup of the opponent does not fail, exactly one gain entry of
  the reward with the game id as reference is appended and the balance grows by the
  reward. A second delivery of the same signal leaves the whole state as the first one left
  it (the unique index on \<^verbatim>\<open>(userId, type, ref)\<close> refuses the second ledger row and the batch
  transaction is rolled back).
\<close>

theorem casual_reward_idempotent:
  assumes g: "gid \<noteq> []" and un: "unstaked gid newId (database s)"
  shows "(let d = database s;
              me = user_findUnique u d;
              delta = casual_delta sm (isWhite_of lc me sm);
              s1 = onGameFinish lc il u gid sm newId s
          in escrows (database s1) = escrows d \<and>
             (sum_status sm = Some ''draw'' \<longrightarrow> delta = 3) \<and>
             (sum_status sm \<noteq> Some ''draw'' \<and> \<not> truthy (sum_winner sm) \<longrightarrow> delta = 1) \<and>
             (sum_status sm \<noteq> Some ''draw'' \<and>
              (me = None \<or> \<not> truthy (case me of None \<Rightarrow> None | Some usr \<Rightarrow> lichessUsername usr) \<or>
               sum_players sm = None) \<longrightarrow> delta = 1) \<and>
             (\<forall>usr name p.
                sum_status sm \<noteq> Some ''draw'' \<and> me = Some usr \<and> lichessUsername usr = Some name \<and>
                name \<noteq> [] \<and> sum_players sm = Some p \<longrightarrow>
                (let un = lc name;
                     w = lc (case white_name p of None \<Rightarrow> [] | Some n \<Rightarrow> n);
                     b = lc (case black_name p of None \<Rightarrow> [] | Some n \<Rightarrow> n)
                 in (w = un \<and> sum_winner sm = Some ''white'' \<longrightarrow> delta = 8) \<and>
                    (w = un \<and> sum_winner sm \<noteq> Some ''white'' \<longrightarrow> delta = 1) \<and>
                    (w \<noteq> un \<and> b = un \<and> sum_winner sm = Some ''black'' \<longrightarrow> delta = 8) \<and>
                    (w \<noteq> un \<and> b = un \<and> sum_winner sm \<noteq> Some ''black'' \<longrightarrow> delta = 1) \<and>
                    (w \<noteq> un \<and> b \<noteq> un \<longrightarrow> delta = 1))) \<and>
             (\<forall>b. me \<noteq> None \<and> balance_findUnique u d = Some b \<and>
                  in_int4 (chessCC b + delta) \<and>
                  txLedger_findFirst u gain (Some gid) d = None \<and>
                  (\<exists>opp. opponent_of il sm (isWhite_of lc me sm) d = Inr opp) \<longrightarrow>
                  txLedger (database s1) =
                    txLedger d @
                      [\<lparr>tx_userId = u, tx_type = gain, tx_amount = delta, tx_ref = Some gid\<rparr>] \<and>
                  balance_findUnique u (database s1) = Some (b\<lparr>chessCC := chessCC b + delta\<rparr>)) \<and>
             onGameFinish lc il u gid sm newId' s1 = s1)"
proof -
  let ?d = "database s"
  let ?me = "user_findUnique u ?d"
  let ?iw = "isWhite_of lc ?me sm"
  let ?delta = "casual_delta sm ?iw"
  let ?s1 = "onGameFinish lc il u gid sm newId s"
  let ?row = "\<lparr>tx_userId = u, tx_type = gain, tx_amount = ?delta, tx_ref = Some gid\<rparr>"
  note tab = casual_delta_table [of sm lc ?me]
  have rest: "escrows (database ?s1) = escrows ?d \<and>
      (\<forall>b. ?me \<noteq> None \<and> balance_findUnique u ?d = Some b \<and> in_int4 (chessCC b + ?delta) \<and>
           txLedger_findFirst u gain (Some gid) ?d = None \<and>
           (\<exists>opp. opponent_of il sm ?iw ?d = Inr opp) \<longrightarrow>
           txLedger (database ?s1) = txLedger ?d @ [?row] \<and>
           balance_findUnique u (database ?s1) = Some (b\<lparr>chessCC := chessCC b + ?delta\<rparr>)) \<and>
      onGameFinish lc il u gid sm newId' ?s1 = ?s1"
  proof (cases "opponent_of il sm ?iw ?d")
    case (Inl e)
    then have "?s1 = s" by (rule onGameFinish_opp_error)
    moreover have "onGameFinish lc il u gid sm newId' s = s"
      using Inl by (rule onGameFinish_opp_error)
    ultimately show ?thesis using Inl by simp
  next
    case (Inr opp)
    from onGameFinish_unstaked [OF g un Inr] obtain m1 d1 where
      f: "match_findByGame gid d1 = Some m1" and st: "stakeCC m1 \<le> 0"
      and rs: "result_of sm ?iw \<noteq> None \<longrightarrow> m_result m1 = result_of sm ?iw"
      and fr: "users d1 = users ?d" "balances d1 = balances ?d" "txLedger d1 = txLedger ?d"
        "escrows d1 = escrows ?d"
      and s1: "?s1 = s\<lparr>database := casual_db u ?delta gid d1\<rparr>"
      by blast
    let ?d2 = "casual_db u ?delta gid d1"
    have db1: "database ?s1 = ?d2" by (simp add: s1)
    have 1: "escrows (database ?s1) = escrows ?d"
      by (simp add: db1 casual_db_frame fr)
    have 3: "\<forall>b. ?me \<noteq> None \<and> balance_findUnique u ?d = Some b \<and> in_int4 (chessCC b + ?delta) \<and>
           txLedger_findFirst u gain (Some gid) ?d = None \<and>
           (\<exists>opp. opponent_of il sm ?iw ?d = Inr opp) \<longrightarrow>
           txLedger (database ?s1) = txLedger ?d @ [?row] \<and>
           balance_findUnique u (database ?s1) = Some (b\<lparr>chessCC := chessCC b + ?delta\<rparr>)"
    proof (intro allI impI)
      fix b assume a: "?me \<noteq> None \<and> balance_findUnique u ?d = Some b \<and>
           in_int4 (chessCC b + ?delta) \<and> txLedger_findFirst u gain (Some gid) ?d = None \<and>
           (\<exists>opp. opponent_of il sm ?iw ?d = Inr opp)"
      then have b1: "balance_findUnique u d1 = Some b"
        and "txLedger_findFirst u gain (Some gid) d1 = None" and "user_findUnique u d1 \<noteq> None"
        using fr by (simp_all add: balance_findUnique_def txLedger_findFirst_def user_findUnique_def)
      then have "casual_ok u ?delta gid d1"
        using a casual_delta_range [of sm ?iw] by (simp add: casual_ok_def)
      then have "?d2 = post_tx ?row d1" by (simp add: casual_db_eq)
      then show "txLedger (database ?s1) = txLedger ?d @ [?row] \<and>
           balance_findUnique u (database ?s1) = Some (b\<lparr>chessCC := chessCC b + ?delta\<rparr>)"
        using b1 fr by (simp add: db1 balance_post_tx)
    qed
    have 4: "onGameFinish lc il u gid sm newId' ?s1 = ?s1"
    proof -
      have us: "users ?d2 = users ?d" by (simp add: casual_db_frame fr)
      then have iw: "isWhite_of lc (user_findUnique u ?d2) sm = ?iw"
        by (simp add: user_findUnique_def)
      have f2: "match_findByGame gid ?d2 = Some m1"
        using f by (simp add: match_findByGame_def casual_db_frame)
      have opp2: "opponent_of il sm ?iw (database ?s1) = Inr opp"
        using Inr opponent_of_users [OF us, of il sm ?iw] by (simp only: db1)
      let ?w = "if ?iw = Some True then Some u
                else if truthy opp \<and> ?iw = Some False then opp else None"
      let ?b = "if ?iw = Some False then Some u
                else if truthy opp \<and> ?iw = Some True then opp else None"
      have "match_upsert gid newId' (result_of sm ?iw) ?w ?b ?d2 = Inr (m1, ?d2)"
        using f2 rs by (rule match_upsert_again)
      then have up: "match_upsert gid newId' (result_of sm ?iw) ?w ?b (database ?s1) = Inr (m1, ?d2)"
        by (simp only: db1)
      have iw1: "?iw = isWhite_of lc (user_findUnique u (database ?s1)) sm"
        by (simp only: db1 iw)
      have "onGameFinish lc il u gid sm newId' ?s1 =
              ?s1\<lparr>database := casual_db u ?delta gid ?d2\<rparr>"
        using g iw1 opp2 refl refl up st by (rule onGameFinish_casual_step)
      also have "\<dots> = ?s1" by (simp add: casual_db_idem s1)
      finally show ?thesis .
    qed
    from 1 3 4 show ?thesis by blast
  qed
  from tab rest show ?thesis unfolding Let_def by blast
qed

text \<open>
  The claim as stated, for every finish signal, fails on the credit: when the balance of
  the account is the largest value of the column, the update of the balance is refused, the
  batch transaction is rolled back with the ledger row, and the handler only logs the
  error. No gain entry is recorded and nothing is credited.
\<close>

theorem casual_reward_counterexample:
  "(let s1 = onGameFinish toLowerCase ilike ''A'' ''g9'' sum_A_wins ''m2'' s_rich
    in unstaked ''g9'' ''m2'' (database s_rich) \<and>
       in_int4 (chessCC (the (balance_findUnique ''A'' (database s_rich)))) \<and>
       txLedger (database s1) = [] \<and>
       map chessCC (balances (database s1)) = [2147483647, 100])"
  by code_simp

text \<open>
  A game without stake that A wins as white and B loses as black: A gets 8 with one gain
  entry, B gets 1, and neither gets anything more when the signal is delivered again.
\<close>

theorem casual_reward_idempotent_witness:
  "''g9'' \<noteq> [] \<and> unstaked ''g9'' ''m2'' (database s_idle) \<and>
   user_findUnique ''A'' (database s_idle) \<noteq> None \<and>
   balance_findUnique ''A'' (database s_idle) = Some \<lparr>b_userId = ''A'', chessCC = 100\<rparr> \<and>
   in_int4 (100 + 8) \<and>
   txLedger_findFirst ''A'' gain (Some ''g9'') (database s_idle) = None \<and>
   opponent_of ilike sum_A_wins
     (isWhite_of toLowerCase (user_findUnique ''A'' (database s_idle)) sum_A_wins)
     (database s_idle) = Inr (Some ''B'') \<and>
   casual_delta sum_A_wins
     (isWhite_of toLowerCase (user_findUnique ''A'' (database s_idle)) sum_A_wins) = 8 \<and>
   txLedger (database (onGameFinish toLowerCase ilike ''A'' ''g9'' sum_A_wins ''m2'' s_idle)) =
     [\<lparr>tx_userId = ''A'', tx_type = gain, tx_amount = 8, tx_ref = Some ''g9''\<rparr>] \<and>
   balance_findUnique ''A''
     (database (onGameFinish toLowerCase ilike ''A'' ''g9'' sum_A_wins ''m2'' s_idle)) =
     Some \<lparr>b_userId = ''A'', chessCC = 108\<rparr> \<and>
   onGameFinish toLowerCase ilike ''A'' ''g9'' sum_A_wins ''m3''
     (onGameFinish toLowerCase ilike ''A'' ''g9'' sum_A_wins ''m2'' s_idle) =
   onGameFinish toLowerCase ilike ''A'' ''g9'' sum_A_wins ''m2'' s_idle \<and>
   unstaked ''g9'' ''m3'' (database (onGameFinish toLowerCase ilike ''A'' ''g9'' sum_A_wins ''m2'' s_idle)) \<and>
   casual_delta sum_A_wins
     (isWhite_of toLowerCase (user_findUnique ''B'' (database s_idle)) sum_A_wins) = 1 \<and>
   map chessCC (balances (database
     (onGameFinish toLowerCase ilike ''B'' ''g9'' sum_A_wins ''m3''
       (onGameFinish toLowerCase ilike ''A'' ''g9'' sum_A_wins ''m2'' s_idle)))) = [108, 101] \<and>
   onGameFinish toLowerCase ilike ''B'' ''g9'' sum_A_wins ''m4''
     (onGameFinish toLowerCase ilike ''B'' ''g9'' sum_A_wins ''m3''
       (onGameFinish toLowerCase ilike ''A'' ''g9'' sum_A_wins ''m2'' s_idle)) =
   onGameFinish toLowerCase ilike ''B'' ''g9'' sum_A_wins ''m3''
     (onGameFinish toLowerCase ilike ''A'' ''g9'' sum_A_wins ''m2'' s_idle)"
proof -
  let ?sA = "onGameFinish toLowerCase ilike ''A'' ''g9'' sum_A_wins ''m2'' s_idle"
  let ?sB = "onGameFinish toLowerCase ilike ''B'' ''g9'' sum_A_wins ''m3'' ?sA"
  have g: "''g9'' \<noteq> []" by simp
  have un: "unstaked ''g9'' ''m2'' (database s_idle)" by code_simp
  have unB: "unstaked ''g9'' ''m3'' (database ?sA)" by code_simp
  have h: "user_findUnique ''A'' (database s_idle) \<noteq> None"
    "balance_findUnique ''A'' (database s_idle) = Some \<lparr>b_userId = ''A'', chessCC = 100\<rparr>"
    "in_int4 (100 + 8)"
    "txLedger_findFirst ''A'' gain (Some ''g9'') (database s_idle) = None"
    "opponent_of ilike sum_A_wins
       (isWhite_of toLowerCase (user_findUnique ''A'' (database s_idle)) sum_A_wins)
       (database s_idle) = Inr (Some ''B'')"
    by code_simp+
  have v: "casual_delta sum_A_wins
       (isWhite_of toLowerCase (user_findUnique ''A'' (database s_idle)) sum_A_wins) = 8"
    "txLedger (database ?sA) =
       [\<lparr>tx_userId = ''A'', tx_type = gain, tx_amount = 8, tx_ref = Some ''g9''\<rparr>]"
    "balance_findUnique ''A'' (database ?sA) = Some \<lparr>b_userId = ''A'', chessCC = 108\<rparr>"
    "casual_delta sum_A_wins
       (isWhite_of toLowerCase (user_findUnique ''B'' (database s_idle)) sum_A_wins) = 1"
    "map chessCC (balances (database ?sB)) = [108, 101]"
    by code_simp+
  from casual_reward_idempotent [OF g un, where lc = toLowerCase and u = "''A''" and sm = sum_A_wins
      and il = ilike and newId' = "''m3''"]
  have iA: "onGameFinish toLowerCase ilike ''A'' ''g9'' sum_A_wins ''m3'' ?sA = ?sA"
    unfolding Let_def by blast
  from casual_reward_idempotent [OF g unB, where lc = toLowerCase and u = "''B''" and sm = sum_A_wins
      and il = ilike and newId' = "''m4''"]
  have iB: "onGameFinish toLowerCase ilike ''B'' ''g9'' sum_A_wins ''m4'' ?sB = ?sB"
    unfolding Let_def by blast
  from g un unB h v iA iB show ?thesis by simp
qed

subsection \<open>C7\<close>

text \<open>
  C7 (timeout). The code does not refund every wager whose deadline passes without a start
  signal. The timer resolves the match under the game id \<^verbatim>\<open>cancel-${Date.now()}\<close>, and the
  game id of a match is unique in the database. Two wagers (A against B on \<open>m1\<close>, C against
  D on \<open>m2\<close>, all four stakes held) whose timers fire in the same millisecond ask for the
  same id: the first timer refunds A and B; in the second one the update of the match is
  refused with \<^verbatim>\<open>P2002\<close>, the transaction is rolled back, and the callback only logs the
  error. C and D stay at 80, their escrow stays held and their match has no result, with no
  timer left to fire. (After a start signal that linked the match neither timer does
  anything: lemma \<open>timeout_after_start\<close>.)
\<close>

theorem timeouts_same_millisecond_second_not_refunded:
  "(let d = database (queue_timeout ''m2'' ''C'' ''D'' ''1700000000000''
                       (queue_timeout ''m1'' ''A'' ''B'' ''1700000000000'' s_two))
    in map chessCC (balances d) = [100, 100, 80, 80] \<and>
       map status (escrows d) = [refunded, held] \<and>
       map m_result (matches d) = [Some abort, None] \<and>
       filter (\<lambda>t. tx_type t = refund) (txLedger d) =
         [\<lparr>tx_userId = ''A'', tx_type = refund, tx_amount = 20,
           tx_ref = Some ''cancel-1700000000000''\<rparr>,
          \<lparr>tx_userId = ''B'', tx_type = refund, tx_amount = 20,
           tx_ref = Some ''cancel-1700000000000''\<rparr>] \<and>
       fst (resolveMatch
              \<lparr>r_matchId = ''m2'', r_lichessGameId = ''cancel-1700000000000'', r_result = abort,
               winnerUserId = None, whiteUserId = Some ''C'', blackUserId = Some ''D''\<rparr>
              (database (queue_timeout ''m1'' ''A'' ''B'' ''1700000000000'' s_two))) = Some P2002)"
  by code_simp

subsection \<open>C8\<close>

text \<open>
  C8 (winner required), as the code has it. When the match exists and has no result, no
  other match has the game id, and the escrow of the match holds something, a call with
  result \<open>W\<close> and no winner (null or the empty string) fails with \<^verbatim>\<open>WINNER_REQUIRED\<close> and the
  database is exactly as before: the update of the match made earlier in the transaction is
  rolled back, and ledger, balances and escrow are untouched.
\<close>

theorem resolveMatch_winner_required:
  assumes "match_findUnique (r_matchId args) d = Some m" and "m_result m = None"
    and "\<not> gameId_taken (r_matchId args) (r_lichessGameId args) d"
    and "escrow_findUnique (r_matchId args) d = Some e"
    and "whiteHold e \<noteq> 0 \<or> blackHold e \<noteq> 0"
    and "r_result args = W" and "\<not> truthy (winnerUserId args)"
  shows "resolveMatch args d = (Some WINNER_REQUIRED, d)"
proof -
  have "resolve_win args (whiteHold e) (blackHold e) t = Inl WINNER_REQUIRED" for t
    using assms(7) by (simp add: resolve_win_def truthy_def split: option.splits)
  then have "resolveMatch_tx args d = Inl WINNER_REQUIRED"
    using assms by (auto simp: resolveMatch_tx_open Let_def)
  then show ?thesis by (simp add: resolveMatch_def transaction_def)
qed

text \<open>
  The claim as stated, for every call, fails: on a match without escrow the function
  returns before it looks at the winner, without error and with the result \<open>W\<close> recorded.
\<close>

theorem resolveMatch_winner_required_counterexample:
  "(let r = resolveMatch (resolve_with W None (Some ''A'') (Some ''B'')) db0
    in fst r = None \<and> map m_result (matches (snd r)) = [Some W] \<and> snd r \<noteq> db0)"
  by code_simp

text \<open>
  In the scenario, with both stakes held, the call is refused and changes nothing.
\<close>

theorem resolveMatch_winner_required_witness:
  "match_findUnique ''m1'' db_held =
     Some \<lparr>m_id = ''m1'', lichessGameId = None, whiteId = None, blackId = None,
           stakeCC = 20, m_result = None\<rparr> \<and>
   \<not> gameId_taken ''m1'' ''g1'' db_held \<and>
   escrow_findUnique ''m1'' db_held =
     Some \<lparr>e_matchId = ''m1'', whiteHold = 20, blackHold = 20, status = held\<rparr> \<and>
   \<not> truthy None \<and>
   resolveMatch (resolve_with W None (Some ''A'') (Some ''B'')) db_held = (Some WINNER_REQUIRED, db_held)"
proof -
  let ?a = "resolve_with W None (Some ''A'') (Some ''B'')"
  let ?m = "\<lparr>m_id = ''m1'', lichessGameId = None, whiteId = None, blackId = None,
           stakeCC = 20, m_result = None\<rparr>"
  let ?e = "\<lparr>e_matchId = ''m1'', whiteHold = 20, blackHold = 20, status = held\<rparr>"
  have a: "r_matchId ?a = ''m1''" "r_lichessGameId ?a = ''g1''" "r_result ?a = W"
    "winnerUserId ?a = None"
    by (simp_all add: resolve_with_def)
  have h1: "match_findUnique ''m1'' db_held = Some ?m" by code_simp
  have h2: "\<not> gameId_taken ''m1'' ''g1'' db_held" by code_simp
  have h3: "escrow_findUnique ''m1'' db_held = Some ?e" by code_simp
  have h4: "\<not> truthy None" by (simp add: truthy_def)
  have "resolveMatch ?a db_held = (Some WINNER_REQUIRED, db_held)"
    by (rule resolveMatch_winner_required [where m = ?m and e = ?e])
       (simp_all add: a h1 h2 h3 h4)
  with h1 h2 h3 h4 show ?thesis by simp
qed

subsection \<open>C9\<close>

text \<open>
  C9 (result \<open>L\<close>), as the code has it. On a match without prior result, when no other
  match has the game id, a call with result \<open>L\<close> records the result and the game id in the
  match and changes nothing else: no ledger entry, no balance change, and the escrow table,
  hence the status of a held escrow, is as before. When another match has the game id, the
  unique index refuses the update of the match: the call throws \<^verbatim>\<open>P2002\<close> and nothing changes
  at all, the result of the match included.
\<close>

theorem resolveMatch_loss_only_sets_result:
  assumes "match_findUnique (r_matchId args) d = Some m" and "m_result m = None"
    and "r_result args = L"
  shows "(gameId_taken (r_matchId args) (r_lichessGameId args) d \<longrightarrow>
            resolveMatch args d = (Some P2002, d)) \<and>
         (\<not> gameId_taken (r_matchId args) (r_lichessGameId args) d \<longrightarrow>
            (\<exists>d'. resolveMatch args d = (None, d') \<and>
                   match_findUnique (r_matchId args) d' =
                     Some (m\<lparr>lichessGameId := Some (r_lichessGameId args), m_result := Some L\<rparr>) \<and>
                   txLedger d' = txLedger d \<and> balances d' = balances d \<and> escrows d' = escrows d))"
proof (intro conjI impI)
  assume "gameId_taken (r_matchId args) (r_lichessGameId args) d"
  then show "resolveMatch args d = (Some P2002, d)"
    using assms by (simp add: resolveMatch_def transaction_def resolveMatch_tx_taken)
next
  assume free: "\<not> gameId_taken (r_matchId args) (r_lichessGameId args) d"
  let ?f = "\<lambda>m. m\<lparr>lichessGameId := Some (r_lichessGameId args), m_result := Some (r_result args)\<rparr>"
  have "resolveMatch_tx args d = Inr (set_match (r_matchId args) ?f d)"
    using assms by (simp add: resolveMatch_tx_open [OF assms(1,2) free] Let_def)
  then have r: "resolveMatch args d = (None, set_match (r_matchId args) ?f d)"
    by (simp add: resolveMatch_def transaction_def)
  have "m_id m = r_matchId args"
    using assms(1) by (auto simp: match_findUnique_def dest: find_SomeD)
  then have "match_findUnique (r_matchId args) (set_match (r_matchId args) ?f d) = Some (?f m)"
    using assms(1) by (simp add: match_set_match)
  with r assms(3) show "\<exists>d'. resolveMatch args d = (None, d') \<and>
                   match_findUnique (r_matchId args) d' =
                     Some (m\<lparr>lichessGameId := Some (r_lichessGameId args), m_result := Some L\<rparr>) \<and>
                   txLedger d' = txLedger d \<and> balances d' = balances d \<and> escrows d' = escrows d"
    by simp
qed

text \<open>
  The claim as stated, for every call on a match without prior result, fails on the result
  field: in the scenario with another match already carrying the game id \<open>g1\<close>, the call
  throws and the match \<open>m1\<close> still has no result.
\<close>

theorem resolveMatch_loss_counterexample:
  "(let r = resolveMatch (resolve_with L None (Some ''A'') (Some ''B'')) db_taken
    in map_option m_result (match_findUnique ''m1'' db_taken) = Some None \<and>
       fst r = Some P2002 \<and> snd r = db_taken \<and>
       map_option m_result (match_findUnique ''m1'' (snd r)) = Some None)"
  by code_simp

text \<open>
  In the scenario no other match has the game id: the result is recorded and the held
  escrow stays held.
\<close>

theorem resolveMatch_loss_only_sets_result_witness:
  "match_findUnique ''m1'' db_held =
     Some \<lparr>m_id = ''m1'', lichessGameId = None, whiteId = None, blackId = None,
           stakeCC = 20, m_result = None\<rparr> \<and>
   \<not> gameId_taken ''m1'' ''g1'' db_held \<and>
   (\<exists>d'. resolveMatch (resolve_with L None (Some ''A'') (Some ''B'')) db_held = (None, d') \<and>
      match_findUnique ''m1'' d' =
        Some \<lparr>m_id = ''m1'', lichessGameId = Some ''g1'', whiteId = None, blackId = None,
              stakeCC = 20, m_result = Some L\<rparr> \<and>
      txLedger d' = txLedger db_held \<and> balances d' = balances db_held \<and>
      escrows d' = escrows db_held) \<and>
   map status (escrows db_held) = [held]"
proof -
  let ?a = "resolve_with L None (Some ''A'') (Some ''B'')"
  let ?m = "\<lparr>m_id = ''m1'', lichessGameId = None, whiteId = None, blackId = None,
           stakeCC = 20, m_result = None\<rparr>"
  have a: "r_matchId ?a = ''m1''" "r_lichessGameId ?a = ''g1''" "r_result ?a = L"
    by (simp_all add: resolve_with_def)
  have h1: "match_findUnique (r_matchId ?a) db_held = Some ?m" unfolding a by code_simp
  have h2: "\<not> gameId_taken ''m1'' ''g1'' db_held" by code_simp
  have h3: "map status (escrows db_held) = [held]" by code_simp
  have h0: "m_result ?m = None" by simp
  from resolveMatch_loss_only_sets_result [OF h1 h0 a(3)] h1 h2 h3 show ?thesis
    by (simp add: a)
qed

subsection \<open>C10\<close>

text \<open>
  C10 (no duplicate suppression without reference), as the code has it. For an account that
  exists and has a balance row, when the amount and the balance plus the amount fit the
  32-bit columns, \<^verbatim>\<open>ensureTx\<close> with \<^verbatim>\<open>ref = null\<close> appends a new ledger row and applies the
  amount to the balance, whatever the ledger already contains.
\<close>

theorem ensureTx_null_ref_always_creates:
  assumes "user_findUnique uid d \<noteq> None" and "balance_findUnique uid d = Some b"
    and "in_int4 amount" and "in_int4 (chessCC b + amount)"
  shows "\<exists>d'. ensureTx uid ty amount None d =
                 Inr (\<lparr>tx_userId = uid, tx_type = ty, tx_amount = amount, tx_ref = None\<rparr>, d')
             \<and> txLedger d' = txLedger d @ [\<lparr>tx_userId = uid, tx_type = ty, tx_amount = amount, tx_ref = None\<rparr>]
             \<and> balance_findUnique uid d' = Some (b\<lparr>chessCC := chessCC b + amount\<rparr>)"
proof -
  let ?row = "\<lparr>tx_userId = uid, tx_type = ty, tx_amount = amount, tx_ref = None\<rparr>"
  have "ensureTx uid ty amount None d = Inr (?row, post_tx ?row d)"
    using assms
    by (simp add: ensureTx_def truthy_def txLedger_create_def balance_update_def
        balance_findUnique_def user_findUnique_def post_tx_def Let_def cong: if_cong)
  moreover have "txLedger (post_tx ?row d) = txLedger d @ [?row]"
    by simp
  moreover have "balance_findUnique uid (post_tx ?row d) = Some (b\<lparr>chessCC := chessCC b + amount\<rparr>)"
    using assms by (simp add: balance_post_tx)
  ultimately show ?thesis by blast
qed

text \<open>
  The claim as stated, for every call, fails: a credit of 1 to an account whose balance is
  the largest value of the column is refused by the database, and so is an amount beyond
  the range of the ledger column. The call throws and no row is left behind.
\<close>

theorem ensureTx_null_ref_counterexample:
  "user_findUnique ''A'' db_rich \<noteq> None \<and>
   balance_findUnique ''A'' db_rich = Some \<lparr>b_userId = ''A'', chessCC = 2147483647\<rparr> \<and>
   ensureTx ''A'' gain 1 None db_rich = Inl OUT_OF_RANGE \<and>
   ensureTx ''A'' gain 2147483648 None db0 = Inl OUT_OF_RANGE"
  by code_simp

text \<open>
  An identical row \<open>(A, gain, 5, null)\<close> is already there; the call adds a second one and
  the balance goes from 100 to 105.
\<close>

theorem ensureTx_null_ref_always_creates_witness:
  "user_findUnique ''A'' db_dup \<noteq> None \<and>
   balance_findUnique ''A'' db_dup = Some \<lparr>b_userId = ''A'', chessCC = 100\<rparr> \<and>
   in_int4 5 \<and> in_int4 (100 + 5) \<and>
   txLedger db_dup = [\<lparr>tx_userId = ''A'', tx_type = gain, tx_amount = 5, tx_ref = None\<rparr>] \<and>
   (\<exists>d'. ensureTx ''A'' gain 5 None db_dup =
            Inr (\<lparr>tx_userId = ''A'', tx_type = gain, tx_amount = 5, tx_ref = None\<rparr>, d') \<and>
      txLedger d' = [\<lparr>tx_userId = ''A'', tx_type = gain, tx_amount = 5, tx_ref = None\<rparr>,
                     \<lparr>tx_userId = ''A'', tx_type = gain, tx_amount = 5, tx_ref = None\<rparr>] \<and>
      balance_findUnique ''A'' d' = Some \<lparr>b_userId = ''A'', chessCC = 105\<rparr>)"
proof -
  have u: "user_findUnique ''A'' db_dup \<noteq> None" by code_simp
  have h: "balance_findUnique ''A'' db_dup = Some \<lparr>b_userId = ''A'', chessCC = 100\<rparr>"
    by code_simp
  have r: "in_int4 5" "in_int4 (100 + 5)" by code_simp+
  have r': "in_int4 (chessCC \<lparr>b_userId = ''A'', chessCC = 100\<rparr> + 5)" by code_simp
  have l: "txLedger db_dup = [\<lparr>tx_userId = ''A'', tx_type = gain, tx_amount = 5, tx_ref = None\<rparr>]"
    by code_simp
  from ensureTx_null_ref_always_creates [OF u h r(1) r', of gain] u h r l show ?thesis by simp
qed

end
